theory Spec2Isabelle
  imports Complex_Main
begin

section \<open>JavaScript values\<close>

text \<open>
  A JavaScript Number is a real number or one of the three special values. Rounding and
  signed zeros are left out: \<open>Num\<close> carries the exact value. Division writes out what
  JavaScript does at a zero divisor, which HOL's \<open>/\<close> does not.
\<close>

datatype jsnum = Num real | PosInf | NegInf | NaN

fun js_add :: "jsnum \<Rightarrow> jsnum \<Rightarrow> jsnum" where
  "js_add NaN _ = NaN"
| "js_add _ NaN = NaN"
| "js_add (Num a) (Num b) = Num (a + b)"
| "js_add PosInf NegInf = NaN"
| "js_add NegInf PosInf = NaN"
| "js_add PosInf _ = PosInf"
| "js_add _ PosInf = PosInf"
| "js_add NegInf _ = NegInf"
| "js_add _ NegInf = NegInf"

fun js_neg :: "jsnum \<Rightarrow> jsnum" where
  "js_neg (Num a) = Num (- a)"
| "js_neg PosInf = NegInf"
| "js_neg NegInf = PosInf"
| "js_neg NaN = NaN"

definition js_sub :: "jsnum \<Rightarrow> jsnum \<Rightarrow> jsnum" where
  "js_sub a b = js_add a (js_neg b)"

fun js_div :: "jsnum \<Rightarrow> jsnum \<Rightarrow> jsnum" where
  "js_div NaN _ = NaN"
| "js_div _ NaN = NaN"
| "js_div (Num a) (Num b) =
     (if b = 0 then (if a = 0 then NaN else if 0 < a then PosInf else NegInf)
      else Num (a / b))"
| "js_div (Num a) _ = Num 0"
| "js_div PosInf (Num b) = (if 0 \<le> b then PosInf else NegInf)"
| "js_div NegInf (Num b) = (if 0 \<le> b then NegInf else PosInf)"
| "js_div _ _ = NaN"

fun js_mul :: "jsnum \<Rightarrow> jsnum \<Rightarrow> jsnum" where
  "js_mul NaN _ = NaN"
| "js_mul _ NaN = NaN"
| "js_mul (Num a) (Num b) = Num (a * b)"
| "js_mul (Num a) PosInf = (if a = 0 then NaN else if 0 < a then PosInf else NegInf)"
| "js_mul (Num a) NegInf = (if a = 0 then NaN else if 0 < a then NegInf else PosInf)"
| "js_mul PosInf (Num b) = (if b = 0 then NaN else if 0 < b then PosInf else NegInf)"
| "js_mul NegInf (Num b) = (if b = 0 then NaN else if 0 < b then NegInf else PosInf)"
| "js_mul PosInf PosInf = PosInf"
| "js_mul NegInf NegInf = PosInf"
| "js_mul _ _ = NegInf"

text \<open>\<open>a > b\<close> on numbers: false whenever an operand is NaN.\<close>

fun js_gt :: "jsnum \<Rightarrow> jsnum \<Rightarrow> bool" where
  "js_gt NaN _ = False"
| "js_gt _ NaN = False"
| "js_gt (Num a) (Num b) = (b < a)"
| "js_gt PosInf PosInf = False"
| "js_gt PosInf _ = True"
| "js_gt _ PosInf = False"
| "js_gt NegInf _ = False"
| "js_gt _ NegInf = True"

text \<open>\<open>Math.pow(x, 2)\<close>, \<open>Math.sqrt\<close>, and \<open>Math.min\<close>/\<open>Math.max\<close> over a spread array.\<close>

fun js_pow2 :: "jsnum \<Rightarrow> jsnum" where
  "js_pow2 (Num a) = Num (a * a)"
| "js_pow2 PosInf = PosInf"
| "js_pow2 NegInf = PosInf"
| "js_pow2 NaN = NaN"

fun js_sqrt :: "jsnum \<Rightarrow> jsnum" where
  "js_sqrt (Num a) = (if a < 0 then NaN else Num (sqrt a))"
| "js_sqrt PosInf = PosInf"
| "js_sqrt NegInf = NaN"
| "js_sqrt NaN = NaN"

fun js_min2 :: "jsnum \<Rightarrow> jsnum \<Rightarrow> jsnum" where
  "js_min2 NaN _ = NaN"
| "js_min2 _ NaN = NaN"
| "js_min2 NegInf _ = NegInf"
| "js_min2 _ NegInf = NegInf"
| "js_min2 PosInf b = b"
| "js_min2 a PosInf = a"
| "js_min2 (Num a) (Num b) = Num (min a b)"

fun js_max2 :: "jsnum \<Rightarrow> jsnum \<Rightarrow> jsnum" where
  "js_max2 NaN _ = NaN"
| "js_max2 _ NaN = NaN"
| "js_max2 PosInf _ = PosInf"
| "js_max2 _ PosInf = PosInf"
| "js_max2 NegInf b = b"
| "js_max2 a NegInf = a"
| "js_max2 (Num a) (Num b) = Num (max a b)"

definition Math_min :: "jsnum list \<Rightarrow> jsnum" where
  "Math_min xs = foldl js_min2 PosInf xs"

definition Math_max :: "jsnum list \<Rightarrow> jsnum" where
  "Math_max xs = foldl js_max2 NegInf xs"

text \<open>The values \<open>JSON.parse\<close> returns, and the result of reading a property.\<close>

datatype json =
    JNull
  | JBool bool
  | JNum real
  | JStr string
  | JArr "json list"
  | JObj "(string \<times> json) list"

datatype jsval = Undefined | Val json

datatype error = SyntaxError | TypeError | FacadeError | SendError

text \<open>
  \<open>x.name\<close> for the property names the program reads (\<open>type\<close>, \<open>id\<close>, \<open>timestamp\<close>,
  \<open>originalTimestamp\<close>, \<open>sdp\<close>, \<open>candidates\<close>): a TypeError on \<open>null\<close>, the member of an
  object, and \<open>undefined\<close> on every other value, none of which has such a property.
\<close>

fun get_prop :: "json \<Rightarrow> string \<Rightarrow> error + jsval" where
  "get_prop JNull k = Inl TypeError"
| "get_prop (JObj kvs) k = Inr (case map_of kvs k of None \<Rightarrow> Undefined | Some v \<Rightarrow> Val v)"
| "get_prop _ k = Inr Undefined"

text \<open>\<open>x.length\<close> of a property value: a TypeError on \<open>undefined\<close> and \<open>null\<close>.\<close>

fun get_length :: "jsval \<Rightarrow> error + jsval" where
  "get_length Undefined = Inl TypeError"
| "get_length (Val JNull) = Inl TypeError"
| "get_length (Val (JArr xs)) = Inr (Val (JNum (real (length xs))))"
| "get_length (Val (JStr s)) = Inr (Val (JNum (real (length s))))"
| "get_length (Val (JObj kvs)) =
     Inr (case map_of kvs ''length'' of None \<Rightarrow> Undefined | Some v \<Rightarrow> Val v)"
| "get_length (Val _) = Inr Undefined"

text \<open>
  The elements a \<open>for ... of\<close> loop visits: those of an array, the characters of a string,
  and a TypeError on a value that is not iterable.
\<close>

fun iterate :: "jsval \<Rightarrow> error + json list" where
  "iterate (Val (JArr xs)) = Inr xs"
| "iterate (Val (JStr s)) = Inr (map (\<lambda>c. JStr [c]) s)"
| "iterate _ = Inl TypeError"

text \<open>An object literal: a member whose value is \<open>undefined\<close> is dropped when serialised.\<close>

fun obj_literal :: "(string \<times> jsval) list \<Rightarrow> json" where
  "obj_literal kvs = JObj (concat (map (\<lambda>(k, v). case v of Undefined \<Rightarrow> [] | Val j \<Rightarrow> [(k, j)]) kvs))"

text \<open>
  What the program takes from the language and the browser: \<open>JSON.parse\<close> (\<open>None\<close> is a
  SyntaxError), \<open>JSON.stringify\<close> without and with indentation, the coercion of a string
  or an object to a number, whether \<open>send\<close> on the channel throws for a message, and the
  answers of the connection engine: the description \<open>createOffer\<close> and \<open>createAnswer\<close>
  produce (\<open>None\<close> when the promise is rejected), and whether it rejects a local
  description, a remote description or a remote candidate.
\<close>

record env =
  parse :: "string \<Rightarrow> json option"
  stringify :: "json \<Rightarrow> string"
  stringifyPretty :: "json \<Rightarrow> string"
  stringToNumber :: "string \<Rightarrow> jsnum"
  objectToNumber :: "json \<Rightarrow> jsnum"
  sendThrows :: "string \<Rightarrow> bool"
  offerResult :: "string option"
  answerResult :: "string option"
  rejectsLocal :: "string \<Rightarrow> string \<Rightarrow> bool"
  rejectsRemote :: "string \<Rightarrow> jsval \<Rightarrow> bool"
  rejectsCandidate :: "json \<Rightarrow> bool"

fun toNumber :: "env \<Rightarrow> jsval \<Rightarrow> jsnum" where
  "toNumber E Undefined = NaN"
| "toNumber E (Val JNull) = Num 0"
| "toNumber E (Val (JBool b)) = Num (if b then 1 else 0)"
| "toNumber E (Val (JNum r)) = Num r"
| "toNumber E (Val (JStr s)) = stringToNumber E s"
| "toNumber E (Val j) = objectToNumber E j"

text \<open>\<open>String.prototype.trim\<close> leaves the empty string exactly on a string of white space.\<close>

definition is_space :: "char \<Rightarrow> bool" where
  "is_space c = (c \<in> set [CHR '' '', CHR 0x09, CHR 0x0A, CHR 0x0B, CHR 0x0C, CHR 0x0D, CHR 0xA0])"

definition trim :: "string \<Rightarrow> string" where
  "trim s = rev (dropWhile is_space (rev (dropWhile is_space s)))"

section \<open>The page: the global objects, the timers, and what is shown\<close>

text \<open>The object \<open>speedTest\<close> of speed-test.js; \<open>None\<close> is \<open>null\<close>.\<close>

record speedTest =
  isRunning :: bool
  startTime :: "int option"
  endTime :: "int option"
  bytesSent :: nat
  bytesReceived :: nat
  packetsLost :: nat
  latencyTests :: "jsnum list"
  throughputTests :: "jsnum list"
  testInterval :: "nat option"
  latencyInterval :: "nat option"
  statsInterval :: "nat option"
  testDuration :: int
  packetSize :: int
  packetFrequency :: int

datatype readyState = Connecting | Open | Closing | Closed

text \<open>A data channel: its state and the messages handed to \<open>send\<close>, oldest first.\<close>

record channel =
  readyState :: readyState
  sent :: "string list"

text \<open>
  An RTCPeerConnection as the program drives it: whether \<open>close\<close> was called, the
  descriptions applied, and the candidates given to \<open>addIceCandidate\<close>, oldest first.
\<close>

record conn =
  closed :: bool
  localDescription :: "(string \<times> string) option"
  remoteDescription :: "(string \<times> jsval) option"
  remoteCandidates :: "json list"

text \<open>
  The bundle under construction. Its \<open>candidates\<close> member is a reference to an array
  object, as the member \<open>pendingCandidates\<close> of \<open>peer\<close> is: two references may be equal.
\<close>

record signalingData =
  btype :: string
  sdp :: string
  candidates :: nat

record peer =
  pc :: "conn option"
  dc :: "channel option"
  pendingCandidates :: nat
  iceGatheringComplete :: bool
  completeSignalingData :: "signalingData option"

text \<open>
  A timer remembers the delay it was set with and its callback; a callback that closes
  over local variables carries their current values.
\<close>

datatype callback =
    PacketStreamTick nat
  | LatencyTick
  | StatsTick int nat
  | AutoStop
  | GatheringTimeout

record timer =
  tid :: nat
  repeating :: bool
  delay :: jsnum
  cb :: callback

text \<open>
  What the page shows is kept as the sequence of writes to it, oldest first. A message
  is its text without the decoration, with the interpolated values beside it.
\<close>

datatype level = Info | Success | Warning | Error

datatype arg = ArgNum jsnum | ArgVal jsval | ArgInt int | ArgErr error

datatype ui_effect =
    Alert string
  | UpdateStatus string string
  | AddDebugInfo string string "arg list" level
  | AddSpeedTestLog string string "arg list" level
  | AddMessage string string string
  | SetValue string string
  | SetDisabled string bool
  | SetText string string "arg list"
  | SetWidth string jsnum
  | SetHTML string string

record page =
  currentPeer :: string
  peer :: peer
  speedTest :: speedTest
  arrays :: "nat \<Rightarrow> json list"
  nextRef :: nat
  timers :: "timer list"
  nextTimerId :: nat
  ui :: "ui_effect list"

definition emit :: "ui_effect \<Rightarrow> page \<Rightarrow> page" where
  "emit e w = w\<lparr>ui := ui w @ [e]\<rparr>"

subsection \<open>Timers\<close>

text \<open>\<open>setInterval\<close> and \<open>setTimeout\<close> return the handle, a fresh positive number.\<close>

definition setInterval :: "callback \<Rightarrow> jsnum \<Rightarrow> page \<Rightarrow> nat \<times> page" where
  "setInterval c d w =
     (nextTimerId w,
      w\<lparr>timers := timers w @ [\<lparr>tid = nextTimerId w, repeating = True, delay = d, cb = c\<rparr>],
        nextTimerId := nextTimerId w + 1\<rparr>)"

definition setTimeout :: "callback \<Rightarrow> jsnum \<Rightarrow> page \<Rightarrow> nat \<times> page" where
  "setTimeout c d w =
     (nextTimerId w,
      w\<lparr>timers := timers w @ [\<lparr>tid = nextTimerId w, repeating = False, delay = d, cb = c\<rparr>],
        nextTimerId := nextTimerId w + 1\<rparr>)"

text \<open>\<open>clearInterval(h)\<close>: nothing happens for \<open>null\<close> or a handle that names no timer.\<close>

definition clearInterval :: "nat option \<Rightarrow> page \<Rightarrow> page" where
  "clearInterval h w =
     (case h of None \<Rightarrow> w
      | Some i \<Rightarrow> w\<lparr>timers := filter (\<lambda>t. tid t \<noteq> i) (timers w)\<rparr>)"

text \<open>\<open>if (h) clearInterval(h)\<close>: a handle is truthy when it is neither \<open>null\<close> nor 0.\<close>

definition truthy_handle :: "nat option \<Rightarrow> bool" where
  "truthy_handle h = (case h of None \<Rightarrow> False | Some i \<Rightarrow> i \<noteq> 0)"

definition clearIfSet :: "nat option \<Rightarrow> page \<Rightarrow> page" where
  "clearIfSet h w = (if truthy_handle h then clearInterval h w else w)"

subsection \<open>The channel\<close>

text \<open>\<open>peer.dc && peer.dc.readyState === 'open'\<close>\<close>

definition dc_open :: "page \<Rightarrow> bool" where
  "dc_open w = (case dc (peer w) of None \<Rightarrow> False | Some c \<Rightarrow> readyState c = Open)"

text \<open>\<open>peer.dc.send(m)\<close>: \<open>None\<close> when it throws.\<close>

definition dc_send :: "env \<Rightarrow> string \<Rightarrow> page \<Rightarrow> page option" where
  "dc_send E m w =
     (case dc (peer w) of
        None \<Rightarrow> None
      | Some c \<Rightarrow>
          if readyState c \<noteq> Open \<or> sendThrows E m then None
          else Some (w\<lparr>peer := (peer w)\<lparr>dc := Some (c\<lparr>sent := sent c @ [m]\<rparr>)\<rparr>\<rparr>))"

section \<open>The link probe (speed-test.js)\<close>

definition addSpeedTestLog :: "string \<Rightarrow> arg list \<Rightarrow> level \<Rightarrow> page \<Rightarrow> page" where
  "addSpeedTestLog message args type w =
     emit (AddSpeedTestLog (currentPeer w) message args type) w"

text \<open>The values of the three selection boxes of the current tab, as \<open>parseInt\<close> reads them.\<close>

record selects =
  selDuration :: int
  selSize :: int
  selFrequency :: int

definition updateSpeedTestSettings :: "selects \<Rightarrow> page \<Rightarrow> page" where
  "updateSpeedTestSettings sel w =
     w\<lparr>speedTest := (speedTest w)\<lparr>testDuration := selDuration sel,
                                  packetSize := selSize sel,
                                  packetFrequency := selFrequency sel\<rparr>\<rparr>"

definition resetSpeedTestState :: "page \<Rightarrow> page" where
  "resetSpeedTestState w =
     (let w1 = w\<lparr>speedTest := (speedTest w)\<lparr>bytesSent := 0, bytesReceived := 0,
                                            packetsLost := 0, latencyTests := [],
                                            throughputTests := []\<rparr>\<rparr>;
          w2 = clearIfSet (testInterval (speedTest w1)) w1;
          w3 = clearIfSet (latencyInterval (speedTest w2)) w2
      in clearIfSet (statsInterval (speedTest w3)) w3)"

subsection \<open>The three periodic activities\<close>

definition startPacketStream :: "page \<Rightarrow> page" where
  "startPacketStream w =
     (let interval = js_div (Num 1000) (Num (real_of_int (packetFrequency (speedTest w))));
          (h, w1) = setInterval (PacketStreamTick 0) interval w
      in w1\<lparr>speedTest := (speedTest w1)\<lparr>testInterval := Some h\<rparr>\<rparr>)"

text \<open>One tick of the sender; the result carries the next value of \<open>packetId\<close>.\<close>

definition packetStreamTick :: "env \<Rightarrow> int \<Rightarrow> nat \<Rightarrow> page \<Rightarrow> nat \<times> page" where
  "packetStreamTick E now packetId w =
     (if \<not> isRunning (speedTest w) \<or> \<not> dc_open w
      then (packetId, clearInterval (testInterval (speedTest w)) w)
      else
        let packet = JObj [(''type'', JStr ''speed_test''),
                           (''id'', JNum (real packetId)),
                           (''timestamp'', JNum (real_of_int now)),
                           (''data'', JStr (replicate (nat (max 0 (packetSize (speedTest w) - 100)))
                                                      (CHR ''x'')))];
            packetString = stringify E packet
        in case dc_send E packetString w of
             Some w1 \<Rightarrow>
               (packetId + 1,
                w1\<lparr>speedTest := (speedTest w1)\<lparr>bytesSent :=
                                     bytesSent (speedTest w1) + length packetString\<rparr>\<rparr>)
           | None \<Rightarrow>
               (packetId + 1,
                addSpeedTestLog ''Error sending packet: %'' [ArgErr SendError] Error w))"

definition startLatencyTest :: "page \<Rightarrow> page" where
  "startLatencyTest w =
     (let (h, w1) = setInterval LatencyTick (Num 1000) w
      in w1\<lparr>speedTest := (speedTest w1)\<lparr>latencyInterval := Some h\<rparr>\<rparr>)"

text \<open>One tick of the heartbeat; \<open>rnd\<close> is the random identifier drawn for the ping.\<close>

definition latencyTick :: "env \<Rightarrow> int \<Rightarrow> string \<Rightarrow> page \<Rightarrow> page" where
  "latencyTick E now rnd w =
     (if \<not> isRunning (speedTest w) \<or> \<not> dc_open w
      then clearInterval (latencyInterval (speedTest w)) w
      else
        let pingPacket = JObj [(''type'', JStr ''ping''),
                               (''timestamp'', JNum (real_of_int now)),
                               (''id'', JStr rnd)]
        in case dc_send E (stringify E pingPacket) w of
             Some w1 \<Rightarrow> w1
           | None \<Rightarrow> addSpeedTestLog ''Error sending ping: %'' [ArgErr SendError] Error w)"

text \<open>\<open>null\<close> counts as 0 in a subtraction.\<close>

definition ofNull :: "int option \<Rightarrow> int" where
  "ofNull t = (case t of None \<Rightarrow> 0 | Some v \<Rightarrow> v)"

text \<open>\<open>xs.reduce((a, b) => a + b, 0) / xs.length\<close>\<close>

definition avg_of :: "jsnum list \<Rightarrow> jsnum" where
  "avg_of xs = js_div (foldl (\<lambda>a b. js_add a b) (Num 0) xs) (Num (real (length xs)))"

text \<open>\<open>xs.reduce((acc, lat) => acc + Math.pow(lat - avgLatency, 2), 0) / xs.length\<close>\<close>

definition variance_of :: "jsnum \<Rightarrow> jsnum list \<Rightarrow> jsnum" where
  "variance_of avgLatency xs =
     js_div (foldl (\<lambda>acc lat. js_add acc (js_pow2 (js_sub lat avgLatency))) (Num 0) xs)
            (Num (real (length xs)))"

text \<open>The figures of \<open>updateSpeedMetrics\<close>, under the names of its local variables.\<close>

definition usm_avgThroughput :: "speedTest \<Rightarrow> jsnum" where
  "usm_avgThroughput st =
     (if 0 < length (throughputTests st) then avg_of (throughputTests st) else Num 0)"

definition usm_avgLatency :: "speedTest \<Rightarrow> jsnum" where
  "usm_avgLatency st =
     (if 0 < length (latencyTests st) then avg_of (latencyTests st) else Num 0)"

definition usm_jitter :: "speedTest \<Rightarrow> jsnum" where
  "usm_jitter st =
     (if 0 < length (latencyTests st)
      then (let avgLatency = avg_of (latencyTests st);
                variance = variance_of avgLatency (latencyTests st)
            in js_sqrt variance)
      else Num 0)"

definition updateSpeedMetrics :: "page \<Rightarrow> page" where
  "updateSpeedMetrics w =
     (let currentPeer = currentPeer w;
          st = speedTest w;
          w1 = emit (SetText (''throughput'' @ currentPeer) ''% Mbps''
                       [ArgNum (usm_avgThroughput st)]) w;
          w2 = emit (SetText (''latency'' @ currentPeer) ''% ms''
                       [ArgNum (usm_avgLatency st)]) w1;
          w3 = emit (SetText (''packetLoss'' @ currentPeer) ''% %''
                       [ArgInt (int (packetsLost st))]) w2
      in emit (SetText (''jitter'' @ currentPeer) ''% ms'' [ArgNum (usm_jitter st)]) w3)"

definition startStatsCollection :: "int \<Rightarrow> page \<Rightarrow> page" where
  "startStatsCollection now w =
     (let (h, w1) = setInterval (StatsTick now 0) (Num 500) w
      in w1\<lparr>speedTest := (speedTest w1)\<lparr>statsInterval := Some h\<rparr>\<rparr>)"

text \<open>
  The instantaneous throughput of one sampler tick, from the bytes sent since the last
  tick and the two tick times in milliseconds.
\<close>

definition currentThroughput :: "int \<Rightarrow> int \<Rightarrow> int \<Rightarrow> jsnum" where
  "currentThroughput bytesDelta now lastUpdate =
     (let timeDelta = js_div (Num (real_of_int (now - lastUpdate))) (Num 1000)
      in js_div (js_mul (Num (real_of_int bytesDelta)) (Num 8))
                (js_mul (js_mul timeDelta (Num 1024)) (Num 1024)))"

text \<open>
  One tick of the sampler; the result carries the next values of \<open>lastUpdate\<close> and
  \<open>lastBytesSent\<close>.
\<close>

definition statsTick :: "int \<Rightarrow> int \<Rightarrow> nat \<Rightarrow> page \<Rightarrow> (int \<times> nat) \<times> page" where
  "statsTick now lastUpdate lastBytesSent w =
     (let st = speedTest w;
          elapsed = js_div (Num (real_of_int (now - ofNull (startTime st)))) (Num 1000);
          progress = Math_min [js_mul (js_div elapsed (Num (real_of_int (testDuration st))))
                                      (Num 100), Num 100];
          currentPeer = currentPeer w;
          w1 = emit (SetWidth (''progressBar'' @ currentPeer) progress) w;
          w2 = emit (SetText (''progressText'' @ currentPeer) ''Testing... %% (%/%s)''
                       [ArgNum progress, ArgNum elapsed, ArgInt (testDuration st)]) w1;
          bytesDelta = int (bytesSent st) - int lastBytesSent;
          timeDelta = js_div (Num (real_of_int (now - lastUpdate))) (Num 1000);
          w3 = (if js_gt timeDelta (Num 0)
                then w2\<lparr>speedTest := (speedTest w2)\<lparr>throughputTests :=
                          throughputTests (speedTest w2)
                            @ [currentThroughput bytesDelta now lastUpdate]\<rparr>\<rparr>
                else w2);
          w4 = updateSpeedMetrics w3
      in ((now, bytesSent (speedTest w4)), w4))"

subsection \<open>The final report\<close>

text \<open>The figures of \<open>calculateFinalResults\<close>, under the names of its local variables.\<close>

definition cfr_testDuration :: "speedTest \<Rightarrow> jsnum" where
  "cfr_testDuration st =
     js_div (Num (real_of_int (ofNull (endTime st) - ofNull (startTime st)))) (Num 1000)"

definition cfr_totalMbits :: "speedTest \<Rightarrow> jsnum" where
  "cfr_totalMbits st =
     js_div (js_mul (Num (real (bytesSent st))) (Num 8)) (js_mul (Num 1024) (Num 1024))"

definition cfr_avgThroughput :: "speedTest \<Rightarrow> jsnum" where
  "cfr_avgThroughput st = js_div (cfr_totalMbits st) (cfr_testDuration st)"

definition cfr_avgLatency :: "speedTest \<Rightarrow> jsnum" where
  "cfr_avgLatency st =
     (if 0 < length (latencyTests st) then avg_of (latencyTests st) else Num 0)"

definition cfr_minLatency :: "speedTest \<Rightarrow> jsnum" where
  "cfr_minLatency st =
     (if 0 < length (latencyTests st) then Math_min (latencyTests st) else Num 0)"

definition cfr_maxLatency :: "speedTest \<Rightarrow> jsnum" where
  "cfr_maxLatency st =
     (if 0 < length (latencyTests st) then Math_max (latencyTests st) else Num 0)"

definition cfr_jitter :: "speedTest \<Rightarrow> jsnum" where
  "cfr_jitter st =
     (if 0 < length (latencyTests st)
      then (let avgLatency = avg_of (latencyTests st);
                variance = variance_of avgLatency (latencyTests st)
            in js_sqrt variance)
      else Num 0)"

definition calculateFinalResults :: "page \<Rightarrow> page" where
  "calculateFinalResults w =
     (let st = speedTest w;
          w1 = addSpeedTestLog ''Final Results:'' [] Success w;
          w2 = addSpeedTestLog ''Throughput: % Mbps'' [ArgNum (cfr_avgThroughput st)] Info w1;
          w3 = addSpeedTestLog ''Data sent: % MB''
                 [ArgNum (js_div (js_div (Num (real (bytesSent st))) (Num 1024)) (Num 1024))]
                 Info w2;
          w4 = addSpeedTestLog ''Data received: % MB''
                 [ArgNum (js_div (js_div (Num (real (bytesReceived st))) (Num 1024)) (Num 1024))]
                 Info w3;
          w5 = addSpeedTestLog ''Latency: %ms (min: %ms, max: %ms)''
                 [ArgNum (cfr_avgLatency st), ArgNum (cfr_minLatency st),
                  ArgNum (cfr_maxLatency st)] Info w4;
          w6 = addSpeedTestLog ''Jitter: %ms'' [ArgNum (cfr_jitter st)] Info w5
      in addSpeedTestLog ''Test duration: %s'' [ArgNum (cfr_testDuration st)] Info w6)"

subsection \<open>Start, stop, clear\<close>

definition stopSpeedTest :: "int \<Rightarrow> page \<Rightarrow> page" where
  "stopSpeedTest now w =
     (if \<not> isRunning (speedTest w) then w
      else
        let w1 = w\<lparr>speedTest := (speedTest w)\<lparr>isRunning := False, endTime := Some now\<rparr>\<rparr>;
            currentPeer = currentPeer w1;
            w2 = clearIfSet (testInterval (speedTest w1)) w1;
            w3 = clearIfSet (latencyInterval (speedTest w2)) w2;
            w4 = clearIfSet (statsInterval (speedTest w3)) w3;
            w5 = emit (SetDisabled (''startSpeedTest'' @ currentPeer) False) w4;
            w6 = emit (SetDisabled (''stopSpeedTest'' @ currentPeer) True) w5;
            w7 = emit (SetText (''progressText'' @ currentPeer) ''Test completed'' []) w6;
            w8 = emit (SetWidth (''progressBar'' @ currentPeer) (Num 100)) w7;
            w9 = calculateFinalResults w8
        in addSpeedTestLog ''Speed test completed!'' [] Success w9)"

text \<open>
  \<open>now\<close> is the time read for \<open>startTime\<close>, \<open>now'\<close> the time read next, by
  \<open>startStatsCollection\<close>.
\<close>

definition startSpeedTest :: "selects \<Rightarrow> int \<Rightarrow> int \<Rightarrow> page \<Rightarrow> page" where
  "startSpeedTest sel now now' w =
     (if \<not> dc_open w
      then emit (Alert ''Connection not ready! Please establish connection first.'') w
      else if isRunning (speedTest w)
      then addSpeedTestLog ''Speed test already running!'' [] Warning w
      else
        let w1 = updateSpeedTestSettings sel w;
            w2 = resetSpeedTestState w1;
            w3 = w2\<lparr>speedTest := (speedTest w2)\<lparr>isRunning := True, startTime := Some now\<rparr>\<rparr>;
            currentPeer = currentPeer w3;
            w4 = emit (SetDisabled (''startSpeedTest'' @ currentPeer) True) w3;
            w5 = emit (SetDisabled (''stopSpeedTest'' @ currentPeer) False) w4;
            w6 = emit (SetText (''progressText'' @ currentPeer) ''Testing...'' []) w5;
            w7 = addSpeedTestLog ''Starting speed test...'' [] Info w6;
            w8 = addSpeedTestLog ''Duration: %s, Packet size: %B, Frequency: %/s''
                   [ArgInt (testDuration (speedTest w7)), ArgInt (packetSize (speedTest w7)),
                    ArgInt (packetFrequency (speedTest w7))] Info w7;
            w9 = startPacketStream w8;
            w10 = startLatencyTest w9;
            w11 = startStatsCollection now' w10
        in snd (setTimeout AutoStop
                  (js_mul (Num (real_of_int (testDuration (speedTest w11)))) (Num 1000)) w11))"

text \<open>The callback of the deadline timer.\<close>

definition autoStop :: "int \<Rightarrow> page \<Rightarrow> page" where
  "autoStop now w = (if isRunning (speedTest w) then stopSpeedTest now w else w)"

definition clearSpeedTestResults :: "page \<Rightarrow> page" where
  "clearSpeedTestResults w =
     (let currentPeer = currentPeer w;
          w1 = emit (SetText (''throughput'' @ currentPeer) ''- Mbps'' []) w;
          w2 = emit (SetText (''latency'' @ currentPeer) ''- ms'' []) w1;
          w3 = emit (SetText (''packetLoss'' @ currentPeer) ''- %'' []) w2;
          w4 = emit (SetText (''jitter'' @ currentPeer) ''- ms'' []) w3;
          w5 = emit (SetWidth (''progressBar'' @ currentPeer) (Num 0)) w4;
          w6 = emit (SetText (''progressText'' @ currentPeer) ''Ready to test'' []) w5;
          w7 = emit (SetHTML (''speedTestLog'' @ currentPeer) []) w6
      in addSpeedTestLog ''Results cleared'' [] Info w7)"

subsection \<open>Packets arriving on the channel\<close>

definition push_latency :: "jsnum \<Rightarrow> page \<Rightarrow> page" where
  "push_latency latency w =
     w\<lparr>speedTest := (speedTest w)\<lparr>latencyTests := latencyTests (speedTest w) @ [latency]\<rparr>\<rparr>"

text \<open>
  Every exception inside the body is caught and dropped; what was written before it
  stays written.
\<close>

definition handleSpeedTestPacket :: "env \<Rightarrow> int \<Rightarrow> string \<Rightarrow> page \<Rightarrow> page" where
  "handleSpeedTestPacket E now data w =
     (case parse E data of
        None \<Rightarrow> w
      | Some packet \<Rightarrow>
          (case get_prop packet ''type'' of
             Inl _ \<Rightarrow> w
           | Inr ty \<Rightarrow>
               if ty = Val (JStr ''speed_test'') then
                 (let w1 = w\<lparr>speedTest := (speedTest w)\<lparr>bytesReceived :=
                                 bytesReceived (speedTest w) + length data\<rparr>\<rparr>
                  in if dc_open w1 then
                       (case get_prop packet ''id'' of
                          Inl _ \<Rightarrow> w1
                        | Inr pid \<Rightarrow>
                            let echo = obj_literal
                                  [(''type'', Val (JStr ''speed_test_echo'')),
                                   (''originalId'', pid),
                                   (''timestamp'', Val (JNum (real_of_int now)))]
                            in (case dc_send E (stringify E echo) w1 of
                                  Some w2 \<Rightarrow> w2
                                | None \<Rightarrow> w1))
                     else w1)
               else if ty = Val (JStr ''speed_test_echo'') then w
               else if ty = Val (JStr ''ping'') then
                 (if dc_open w then
                    (case (get_prop packet ''timestamp'', get_prop packet ''id'') of
                       (Inr ts, Inr pid) \<Rightarrow>
                         let pong = obj_literal
                               [(''type'', Val (JStr ''pong'')),
                                (''originalTimestamp'', ts),
                                (''id'', pid),
                                (''timestamp'', Val (JNum (real_of_int now)))]
                         in (case dc_send E (stringify E pong) w of
                               Some w1 \<Rightarrow> w1
                             | None \<Rightarrow> w)
                     | _ \<Rightarrow> w)
                  else w)
               else if ty = Val (JStr ''pong'') then
                 (case get_prop packet ''originalTimestamp'' of
                    Inl _ \<Rightarrow> w
                  | Inr ts \<Rightarrow>
                      let latency = js_sub (Num (real_of_int now)) (toNumber E ts)
                      in push_latency latency w)
               else w))"

section \<open>The page helpers (utils.js)\<close>

definition updateStatus :: "string \<Rightarrow> page \<Rightarrow> page" where
  "updateStatus status w = emit (UpdateStatus (currentPeer w) status) w"

definition addDebugInfo :: "string \<Rightarrow> arg list \<Rightarrow> level \<Rightarrow> page \<Rightarrow> page" where
  "addDebugInfo message args type w = emit (AddDebugInfo (currentPeer w) message args type) w"

definition addMessage :: "string \<Rightarrow> string \<Rightarrow> page \<Rightarrow> page" where
  "addMessage message sender w = emit (AddMessage (currentPeer w) message sender) w"

definition resetPeerUI :: "page \<Rightarrow> page" where
  "resetPeerUI w =
     (let w1 = emit (SetValue (''completeOffer'' @ currentPeer w) []) w;
          w2 = emit (SetValue (''completeAnswer'' @ currentPeer w1) []) w1;
          w3 = emit (SetHTML (''messages'' @ currentPeer w2) []) w2;
          w4 = emit (SetHTML (''debug'' @ currentPeer w3) []) w3;
          w5 = updateStatus ''Disconnected'' w4
      in addDebugInfo ''Peer % reset'' [ArgVal (Val (JStr (currentPeer w5)))] Info w5)"

section \<open>The bundle negotiator (script.js)\<close>

text \<open>
  An \<open>async\<close> function runs here in one piece: each awaited call of the connection
  engine answers, as the environment says, before any other event is dispatched.
\<close>

subsection \<open>Truthiness and membership\<close>

fun truthy :: "jsval \<Rightarrow> bool" where
  "truthy Undefined = False"
| "truthy (Val JNull) = False"
| "truthy (Val (JBool b)) = b"
| "truthy (Val (JNum r)) = (r \<noteq> 0)"
| "truthy (Val (JStr s)) = (s \<noteq> [])"
| "truthy (Val _) = True"

text \<open>\<open>[...].includes(v)\<close> on an array of strings.\<close>

definition includes_str :: "string list \<Rightarrow> jsval \<Rightarrow> bool" where
  "includes_str xs v = (case v of Val (JStr s) \<Rightarrow> s \<in> set xs | _ \<Rightarrow> False)"

subsection \<open>The connection and its handlers\<close>

text \<open>\<open>new RTCPeerConnection(iceConfig)\<close>, and \<open>[]\<close>, which allocates a new array object.\<close>

definition new_conn :: conn where
  "new_conn = \<lparr>closed = False, localDescription = None, remoteDescription = None,
               remoteCandidates = []\<rparr>"

definition new_array :: "page \<Rightarrow> nat \<times> page" where
  "new_array w = (nextRef w, w\<lparr>arrays := (arrays w)(nextRef w := []), nextRef := nextRef w + 1\<rparr>)"

definition initializePeerConnection :: "page \<Rightarrow> page" where
  "initializePeerConnection w =
     (let w1 = w\<lparr>peer := (peer w)\<lparr>pc := Some new_conn\<rparr>\<rparr>;
          (r, w2) = new_array w1
      in w2\<lparr>peer := (peer w2)\<lparr>pendingCandidates := r, iceGatheringComplete := False\<rparr>\<rparr>)"

text \<open>\<open>if (peer.pc) { peer.pc.close(); }\<close>\<close>

definition close_pc :: "page \<Rightarrow> page" where
  "close_pc w =
     (case pc (peer w) of
        None \<Rightarrow> w
      | Some c \<Rightarrow> w\<lparr>peer := (peer w)\<lparr>pc := Some (c\<lparr>closed := True\<rparr>)\<rparr>\<rparr>)"

definition setupDataChannel :: "channel \<Rightarrow> page \<Rightarrow> page" where
  "setupDataChannel ch w = w\<lparr>peer := (peer w)\<lparr>dc := Some ch\<rparr>\<rparr>"

text \<open>The serialised form of the bundle reads the array its \<open>candidates\<close> member refers to.\<close>

definition bundle_json :: "page \<Rightarrow> signalingData \<Rightarrow> json" where
  "bundle_json w b =
     JObj [(''type'', JStr (btype b)), (''sdp'', JStr (sdp b)),
           (''candidates'', JArr (arrays w (candidates b)))]"

definition completeSignalingReady :: "env \<Rightarrow> page \<Rightarrow> page" where
  "completeSignalingReady E w =
     (let currentPeer = currentPeer w
      in case completeSignalingData (peer w) of
           None \<Rightarrow> w
         | Some b \<Rightarrow>
             if currentPeer = ''A'' then
               (let b1 = b\<lparr>candidates := pendingCandidates (peer w)\<rparr>;
                    w1 = w\<lparr>peer := (peer w)\<lparr>completeSignalingData := Some b1\<rparr>\<rparr>;
                    w2 = emit (SetValue ''completeOfferA'' (stringifyPretty E (bundle_json w1 b1))) w1;
                    w3 = updateStatus ''Complete Offer Ready'' w2
                in addDebugInfo ''Complete offer ready with % candidates''
                     [ArgInt (int (length (arrays w3 (pendingCandidates (peer w3)))))] Success w3)
             else if currentPeer = ''B'' then
               (let b1 = b\<lparr>candidates := pendingCandidates (peer w)\<rparr>;
                    w1 = w\<lparr>peer := (peer w)\<lparr>completeSignalingData := Some b1\<rparr>\<rparr>;
                    w2 = emit (SetValue ''completeAnswerB'' (stringifyPretty E (bundle_json w1 b1))) w1;
                    w3 = updateStatus ''Complete Answer Ready'' w2
                in addDebugInfo ''Complete answer ready with % candidates''
                     [ArgInt (int (length (arrays w3 (pendingCandidates (peer w3)))))] Success w3)
             else w)"

text \<open>
  \<open>peer.pc.onicecandidate\<close>: the event carries a candidate, or \<open>null\<close> (\<open>None\<close>) when
  gathering is complete. \<open>push\<close> writes into the array \<open>pendingCandidates\<close> refers to.
\<close>

definition onicecandidate :: "env \<Rightarrow> json option \<Rightarrow> page \<Rightarrow> page" where
  "onicecandidate E candidate w =
     (case candidate of
        Some c \<Rightarrow>
          (let r = pendingCandidates (peer w);
               w1 = w\<lparr>arrays := (arrays w)(r := arrays w r @ [c])\<rparr>;
               w2 = addDebugInfo ''Generated % candidate:'' [ArgVal (Val c)] Info w1
           in addDebugInfo ''%:% (%, priority: %)'' [ArgVal (Val c)] Info w2)
      | None \<Rightarrow>
          (let w1 = w\<lparr>peer := (peer w)\<lparr>iceGatheringComplete := True\<rparr>\<rparr>;
               w2 = addDebugInfo ''ICE gathering complete! Total: % candidates''
                      [ArgInt (int (length (arrays w1 (pendingCandidates (peer w1)))))] Success w1
           in if completeSignalingData (peer w2) \<noteq> None then completeSignalingReady E w2
              else w2))"

text \<open>The callback of the timer set when the local description is in place.\<close>

definition gatheringTimeout :: "env \<Rightarrow> page \<Rightarrow> page" where
  "gatheringTimeout E w =
     (if \<not> iceGatheringComplete (peer w)
      then completeSignalingReady E
             (addDebugInfo ''ICE gathering timeout, using current candidates'' [] Warning w)
      else w)"

text \<open>The \<open>catch\<close> block shared by the three signalling functions.\<close>

definition caught :: "error \<Rightarrow> page \<Rightarrow> page" where
  "caught e w = updateStatus ''Error'' (addDebugInfo ''Error: %'' [ArgErr e] Error w)"

text \<open>
  The calls on \<open>peer.pc\<close>; a call on \<open>null\<close> is a TypeError, a rejected promise a
  FacadeError.
\<close>

definition setLocalDescription :: "env \<Rightarrow> string \<Rightarrow> string \<Rightarrow> page \<Rightarrow> error + page" where
  "setLocalDescription E ty s w =
     (case pc (peer w) of
        None \<Rightarrow> Inl TypeError
      | Some c \<Rightarrow>
          if rejectsLocal E ty s then Inl FacadeError
          else Inr (w\<lparr>peer := (peer w)\<lparr>pc := Some (c\<lparr>localDescription := Some (ty, s)\<rparr>)\<rparr>\<rparr>))"

definition setRemoteDescription :: "env \<Rightarrow> string \<Rightarrow> jsval \<Rightarrow> page \<Rightarrow> error + page" where
  "setRemoteDescription E ty s w =
     (case pc (peer w) of
        None \<Rightarrow> Inl TypeError
      | Some c \<Rightarrow>
          if rejectsRemote E ty s then Inl FacadeError
          else Inr (w\<lparr>peer := (peer w)\<lparr>pc := Some (c\<lparr>remoteDescription := Some (ty, s)\<rparr>)\<rparr>\<rparr>))"

definition addIceCandidate :: "env \<Rightarrow> json \<Rightarrow> page \<Rightarrow> error + page" where
  "addIceCandidate E c w =
     (case pc (peer w) of
        None \<Rightarrow> Inl TypeError
      | Some p \<Rightarrow>
          if rejectsCandidate E c then Inl FacadeError
          else Inr (w\<lparr>peer := (peer w)\<lparr>pc := Some (p\<lparr>remoteCandidates :=
                                                     remoteCandidates p @ [c]\<rparr>)\<rparr>\<rparr>))"

text \<open>
  \<open>for (const candidate of cs) { await peer.pc.addIceCandidate(candidate); }\<close>: the loop
  ends at the first rejection, with the candidates before it added.
\<close>

fun addAll :: "env \<Rightarrow> json list \<Rightarrow> page \<Rightarrow> error option \<times> page" where
  "addAll E [] w = (None, w)"
| "addAll E (c # cs) w =
     (case addIceCandidate E c w of
        Inl e \<Rightarrow> (Some e, w)
      | Inr w1 \<Rightarrow> addAll E cs w1)"

subsection \<open>Creating and applying bundles\<close>

definition createCompleteOffer :: "env \<Rightarrow> page \<Rightarrow> page" where
  "createCompleteOffer E w =
     (let w1 = addDebugInfo ''Creating complete offer...'' [] Info w;
          w2 = updateStatus ''Gathering ICE Candidates...'' w1;
          w3 = close_pc w2;
          w4 = initializePeerConnection w3;
          w5 = setupDataChannel \<lparr>readyState = Connecting, sent = []\<rparr> w4
      in case offerResult E of
           None \<Rightarrow> caught FacadeError w5
         | Some offer \<Rightarrow>
             (case setLocalDescription E ''offer'' offer w5 of
                Inl e \<Rightarrow> caught e w5
              | Inr w6 \<Rightarrow>
                  let (r, w7) = new_array w6;
                      w8 = w7\<lparr>peer := (peer w7)\<lparr>completeSignalingData :=
                                  Some \<lparr>btype = ''offer'', sdp = offer, candidates = r\<rparr>\<rparr>\<rparr>;
                      w9 = addDebugInfo ''Offer created, gathering ICE candidates...'' [] Info w8
                  in if \<not> iceGatheringComplete (peer w9)
                     then snd (setTimeout GatheringTimeout (Num 5000) w9)
                     else w9))"


text \<open>
  \<open>setCompleteAnswer\<close> of the page as served (script.js with utils.js and
  speed-test.js); \<open>text\<close> is the content of the text area \<open>completeAnswerA\<close>. The loop
  over the candidates is commented out there.
\<close>

definition setCompleteAnswer :: "env \<Rightarrow> string \<Rightarrow> page \<Rightarrow> page" where
  "setCompleteAnswer E text w =
     (if trim text = [] then emit (Alert ''Please paste the complete answer first!'') w
      else case parse E text of
        None \<Rightarrow> caught SyntaxError w
      | Some completeAnswer \<Rightarrow>
      (case get_prop completeAnswer ''candidates'' of
        Inl e \<Rightarrow> caught e w
      | Inr cands \<Rightarrow>
      (case get_length cands of
        Inl e \<Rightarrow> caught e w
      | Inr n \<Rightarrow>
        let w1 = addDebugInfo ''Processing complete answer with % candidates'' [ArgVal n] Info w;
            w2 = updateStatus ''Connecting...'' w1
        in
      (case get_prop completeAnswer ''sdp'' of
        Inl e \<Rightarrow> caught e w2
      | Inr s \<Rightarrow>
      (case setRemoteDescription E ''answer'' s w2 of
        Inl e \<Rightarrow> caught e w2
      | Inr w3 \<Rightarrow>
        let w4 = addDebugInfo ''Added % remote candidates'' [ArgVal n] Success w3
        in addDebugInfo ''Connection should establish now...'' [] Info w4)))))"

text \<open>
  \<open>setCompleteAnswer\<close> of the two single-file versions of the script (the first part
  of script.js, and the unnamed file), which are the same text: the loop is there.
\<close>

definition setCompleteAnswer_single :: "env \<Rightarrow> string \<Rightarrow> page \<Rightarrow> page" where
  "setCompleteAnswer_single E text w =
     (if trim text = [] then emit (Alert ''Please paste the complete answer first!'') w
      else case parse E text of
        None \<Rightarrow> caught SyntaxError w
      | Some completeAnswer \<Rightarrow>
      (case get_prop completeAnswer ''candidates'' of
        Inl e \<Rightarrow> caught e w
      | Inr cands \<Rightarrow>
      (case get_length cands of
        Inl e \<Rightarrow> caught e w
      | Inr n \<Rightarrow>
        let w1 = addDebugInfo ''Processing complete answer with % candidates'' [ArgVal n] Info w;
            w2 = updateStatus ''Connecting...'' w1
        in
      (case get_prop completeAnswer ''sdp'' of
        Inl e \<Rightarrow> caught e w2
      | Inr s \<Rightarrow>
      (case setRemoteDescription E ''answer'' s w2 of
        Inl e \<Rightarrow> caught e w2
      | Inr w3 \<Rightarrow>
      (case iterate cands of
        Inl e \<Rightarrow> caught e w3
      | Inr cs \<Rightarrow>
      (case addAll E cs w3 of
        (Some e, w4) \<Rightarrow> caught e w4
      | (None, w4) \<Rightarrow>
        let w5 = addDebugInfo ''Added % remote candidates'' [ArgVal n] Success w4
        in addDebugInfo ''Connection should establish now...'' [] Info w5)))))))"

definition resetPeer :: "page \<Rightarrow> page" where
  "resetPeer w =
     (let w1 = (case pc (peer w) of
                  None \<Rightarrow> w
                | Some c \<Rightarrow> w\<lparr>peer := (peer w)\<lparr>pc := None\<rparr>\<rparr>);
          w2 = (case dc (peer w1) of
                  None \<Rightarrow> w1
                | Some c \<Rightarrow> w1\<lparr>peer := (peer w1)\<lparr>dc := None\<rparr>\<rparr>);
          (r, w3) = new_array w2;
          w4 = w3\<lparr>peer := (peer w3)\<lparr>pendingCandidates := r, iceGatheringComplete := False,
                                    completeSignalingData := None\<rparr>\<rparr>
      in resetPeerUI w4)"

subsection \<open>Messages arriving on the channel\<close>

text \<open>
  \<open>channel.onmessage\<close> as \<open>setupDataChannel\<close> installs it, with speed-test.js loaded, so
  that \<open>handleSpeedTestPacket\<close> is a function.
\<close>

definition onmessage :: "env \<Rightarrow> int \<Rightarrow> string \<Rightarrow> page \<Rightarrow> page" where
  "onmessage E now data w =
     (let currentPeer = currentPeer w;
          chat = addMessage data (''Peer '' @ (if currentPeer = ''A'' then ''B'' else ''A'')) w
      in case parse E data of
           None \<Rightarrow> chat
         | Some packet \<Rightarrow>
             (case get_prop packet ''type'' of
                Inl _ \<Rightarrow> chat
              | Inr ty \<Rightarrow>
                  if truthy ty
                     \<and> includes_str [''speed_test'', ''speed_test_echo'', ''ping'', ''pong''] ty
                  then handleSpeedTestPacket E now data w
                  else chat))"

section \<open>The event loop\<close>

text \<open>
  A timer fires only while it is pending (\<open>None\<close> otherwise). A timeout is removed
  before its callback runs; an interval stays, and the local variables its callback
  closes over are stored back if the callback has not cleared it.
\<close>

definition set_cb :: "nat \<Rightarrow> callback \<Rightarrow> page \<Rightarrow> page" where
  "set_cb i c w = w\<lparr>timers := map (\<lambda>t. if tid t = i then t\<lparr>cb := c\<rparr> else t) (timers w)\<rparr>"

definition fire :: "env \<Rightarrow> int \<Rightarrow> string \<Rightarrow> nat \<Rightarrow> page \<Rightarrow> page option" where
  "fire E now rnd i w =
     (case find (\<lambda>t. tid t = i) (timers w) of
        None \<Rightarrow> None
      | Some t \<Rightarrow>
          let w0 = (if repeating t then w
                    else w\<lparr>timers := filter (\<lambda>t. tid t \<noteq> i) (timers w)\<rparr>)
          in case cb t of
               PacketStreamTick packetId \<Rightarrow>
                 (let (packetId1, w1) = packetStreamTick E now packetId w0
                  in Some (set_cb i (PacketStreamTick packetId1) w1))
             | LatencyTick \<Rightarrow> Some (latencyTick E now rnd w0)
             | StatsTick lastUpdate lastBytesSent \<Rightarrow>
                 (let ((lastUpdate1, lastBytesSent1), w1) = statsTick now lastUpdate lastBytesSent w0
                  in Some (set_cb i (StatsTick lastUpdate1 lastBytesSent1) w1))
             | AutoStop \<Rightarrow> Some (autoStop now w0)
             | GatheringTimeout \<Rightarrow> Some (gatheringTimeout E w0))"

text \<open>
  The events the negotiator reacts to after a description is in place: a discovered
  candidate, the end of gathering, and a timer (with the time and the random
  identifier its callback may read).
\<close>

datatype event = Candidate json | GatheringComplete | TimerFires nat int string

fun step :: "env \<Rightarrow> event \<Rightarrow> page \<Rightarrow> page option" where
  "step E (Candidate c) w = Some (onicecandidate E (Some c) w)"
| "step E GatheringComplete w = Some (onicecandidate E None w)"
| "step E (TimerFires i now rnd) w = fire E now rnd i w"

fun run :: "env \<Rightarrow> event list \<Rightarrow> page \<Rightarrow> page option" where
  "run E [] w = Some w"
| "run E (e # es) w = (case step E e w of None \<Rightarrow> None | Some w1 \<Rightarrow> run E es w1)"

text \<open>The page when the scripts have loaded.\<close>

definition initial_page :: page where
  "initial_page =
     \<lparr>currentPeer = ''A'',
      peer = \<lparr>pc = None, dc = None, pendingCandidates = 0, iceGatheringComplete = False,
              completeSignalingData = None\<rparr>,
      speedTest = \<lparr>isRunning = False, startTime = None, endTime = None, bytesSent = 0,
                   bytesReceived = 0, packetsLost = 0, latencyTests = [],
                   throughputTests = [], testInterval = None, latencyInterval = None,
                   statsInterval = None, testDuration = 10, packetSize = 1024,
                   packetFrequency = 100\<rparr>,
      arrays = (\<lambda>_. []),
      nextRef = 1,
      timers = [],
      nextTimerId = 1,
      ui = []\<rparr>"

section \<open>Notions of the specification\<close>

text \<open>The arithmetic mean and the population standard deviation, as the specification words them.\<close>

definition mean :: "real list \<Rightarrow> real" where
  "mean xs = sum_list xs / real (length xs)"


section \<open>Notions used to state the properties\<close>

text \<open>A parsed message carries one of the four type tags of the probe.\<close>

definition recognized :: "json \<Rightarrow> bool" where
  "recognized p =
     (\<exists>s \<in> set [''speed_test'', ''speed_test_echo'', ''ping'', ''pong''].
        get_prop p ''type'' = Inr (Val (JStr s)))"

text \<open>Every interval timer pending on the page is one whose handle the probe holds.\<close>

definition intervals_held :: "page \<Rightarrow> bool" where
  "intervals_held w =
     (\<forall>t \<in> set (timers w).
        repeating t \<longrightarrow>
          tid t \<noteq> 0 \<and> Some (tid t) \<in> {testInterval (speedTest w), latencyInterval (speedTest w),
                                         statsInterval (speedTest w)})"

text \<open>The chat handling of \<open>channel.onmessage\<close>: the message is shown as the other peer's.\<close>

definition chat :: "string \<Rightarrow> page \<Rightarrow> page" where
  "chat data w = addMessage data (''Peer '' @ (if currentPeer w = ''A'' then ''B'' else ''A'')) w"

text \<open>
  The bundles written to the two text areas, oldest first; the text of a bundle with
  given candidates; and the text area the current tab writes to.
\<close>

definition is_publication :: "ui_effect \<Rightarrow> bool" where
  "is_publication e =
     (case e of SetValue el v \<Rightarrow> el = ''completeOfferA'' \<or> el = ''completeAnswerB'' | _ \<Rightarrow> False)"

definition publications :: "page \<Rightarrow> ui_effect list" where
  "publications w = filter is_publication (ui w)"

text \<open>The candidates array the bundle in memory refers to.\<close>

definition bundle_candidates :: "page \<Rightarrow> json list option" where
  "bundle_candidates w = map_option (\<lambda>b. arrays w (candidates b)) (completeSignalingData (peer w))"

definition bundle_text :: "env \<Rightarrow> signalingData \<Rightarrow> json list \<Rightarrow> string" where
  "bundle_text E b cs =
     stringifyPretty E (JObj [(''type'', JStr (btype b)), (''sdp'', JStr (sdp b)),
                              (''candidates'', JArr cs)])"

definition target :: "page \<Rightarrow> string" where
  "target w = (if currentPeer w = ''A'' then ''completeOfferA'' else ''completeAnswerB'')"

text \<open>The page after the candidates \<open>cs\<close> were discovered one after the other.\<close>

definition discover :: "env \<Rightarrow> json list \<Rightarrow> page \<Rightarrow> page" where
  "discover E cs w = fold (\<lambda>c. onicecandidate E (Some c)) cs w"

text \<open>
  A round is open: the description is in place, gathering is not complete, and timer
  \<open>i\<close> is the pending 5000 ms gathering timer.
\<close>

definition round_open :: "nat \<Rightarrow> signalingData \<Rightarrow> page \<Rightarrow> bool" where
  "round_open i b w =
     (completeSignalingData (peer w) = Some b
      \<and> \<not> iceGatheringComplete (peer w)
      \<and> (currentPeer w = ''A'' \<or> currentPeer w = ''B'')
      \<and> find (\<lambda>t. tid t = i) (timers w)
          = Some \<lparr>tid = i, repeating = False, delay = Num 5000, cb = GatheringTimeout\<rparr>)"

text \<open>The page without timer \<open>i\<close>, as a timeout leaves it before its callback runs.\<close>

definition without_timer :: "nat \<Rightarrow> page \<Rightarrow> page" where
  "without_timer i w = w\<lparr>timers := filter (\<lambda>t. tid t \<noteq> i) (timers w)\<rparr>"



section \<open>Sample environment and pages\<close>

text \<open>
  An environment for concrete runs. Its \<open>parse\<close> knows the few texts below and takes
  every other text for malformed; its engine rejects a missing or empty description
  and accepts everything else; \<open>send\<close> never throws.
\<close>

definition quoted :: "string \<Rightarrow> string" where
  "quoted s = CHR 0x22 # s @ [CHR 0x22]"

definition pong_text :: string where
  "pong_text = ''{'' @ quoted ''type'' @ '':'' @ quoted ''pong'' @ '',''
                 @ quoted ''originalTimestamp'' @ '':1000}''"

definition pong_packet :: json where
  "pong_packet = JObj [(''type'', JStr ''pong''), (''originalTimestamp'', JNum 1000)]"

text \<open>A heartbeat answer that carries no \<open>originalTimestamp\<close>.\<close>

definition bare_pong_text :: string where
  "bare_pong_text = ''{'' @ quoted ''type'' @ '':'' @ quoted ''pong'' @ ''}''"

definition bare_pong_packet :: json where
  "bare_pong_packet = JObj [(''type'', JStr ''pong'')]"

definition untagged_text :: string where
  "untagged_text = ''{'' @ quoted ''kind'' @ '':'' @ quoted ''note'' @ ''}''"

definition untagged_packet :: json where
  "untagged_packet = JObj [(''kind'', JStr ''note'')]"

definition cand_a :: json where
  "cand_a = JObj [(''candidate'', JStr ''a'')]"

definition cand_b :: json where
  "cand_b = JObj [(''candidate'', JStr ''b'')]"

definition answer_text :: string where
  "answer_text = ''{'' @ quoted ''type'' @ '':'' @ quoted ''answer'' @ '',''
                   @ quoted ''sdp'' @ '':'' @ quoted ''v=0'' @ '',''
                   @ quoted ''candidates'' @ '':[{'' @ quoted ''candidate'' @ '':'' @ quoted ''a''
                   @ ''},{'' @ quoted ''candidate'' @ '':'' @ quoted ''b'' @ ''}]}''"

definition answer_bundle :: json where
  "answer_bundle = JObj [(''type'', JStr ''answer''), (''sdp'', JStr ''v=0''),
                         (''candidates'', JArr [cand_a, cand_b])]"

definition no_sdp_text :: string where
  "no_sdp_text = ''{'' @ quoted ''type'' @ '':'' @ quoted ''offer'' @ '',''
                   @ quoted ''candidates'' @ '':[]}''"

definition no_sdp_bundle :: json where
  "no_sdp_bundle = JObj [(''type'', JStr ''offer''), (''candidates'', JArr [])]"

definition empty_sdp_text :: string where
  "empty_sdp_text = ''{'' @ quoted ''type'' @ '':'' @ quoted ''offer'' @ '',''
                      @ quoted ''sdp'' @ '':'' @ quoted [] @ '',''
                      @ quoted ''candidates'' @ '':[]}''"

definition empty_sdp_bundle :: json where
  "empty_sdp_bundle = JObj [(''type'', JStr ''offer''), (''sdp'', JStr []),
                            (''candidates'', JArr [])]"

definition sample_parse :: "string \<Rightarrow> json option" where
  "sample_parse s =
     (if s = pong_text then Some pong_packet
      else if s = untagged_text then Some untagged_packet
      else if s = answer_text then Some answer_bundle
      else if s = no_sdp_text then Some no_sdp_bundle
      else if s = empty_sdp_text then Some empty_sdp_bundle
      else if s = bare_pong_text then Some bare_pong_packet
      else if s = ''null'' then Some JNull
      else None)"

definition E0 :: env where
  "E0 = \<lparr>parse = sample_parse,
         stringify = (\<lambda>j. ''{}''),
         stringifyPretty = (\<lambda>j. ''{}''),
         stringToNumber = (\<lambda>s. NaN),
         objectToNumber = (\<lambda>j. NaN),
         sendThrows = (\<lambda>m. False),
         offerResult = Some ''v=0'',
         answerResult = Some ''v=0'',
         rejectsLocal = (\<lambda>ty s. False),
         rejectsRemote = (\<lambda>ty s. s = Undefined \<or> s = Val (JStr [])),
         rejectsCandidate = (\<lambda>c. False)\<rparr>"


text \<open>
  A page whose channel is open; the same page after a run was started on it; after one
  heartbeat answer arrived during the run; and after the run was stopped.
\<close>

definition open_page :: page where
  "open_page = setupDataChannel \<lparr>readyState = Open, sent = []\<rparr> initial_page"

definition sel0 :: selects where
  "sel0 = \<lparr>selDuration = 1, selSize = 512, selFrequency = 10\<rparr>"

definition running_page :: page where
  "running_page = startSpeedTest sel0 1000 1000 open_page"

definition probing_page :: page where
  "probing_page = handleSpeedTestPacket E0 1020 pong_text running_page"

definition stopped_page :: page where
  "stopped_page = stopSpeedTest 2000 probing_page"


text \<open>The running page with 131072 bytes counted as sent.\<close>

definition sent_page :: page where
  "sent_page = running_page\<lparr>speedTest := (speedTest running_page)\<lparr>bytesSent := 131072\<rparr>\<rparr>"

text \<open>The initial page after an offer was created on it, and the bundle it holds.\<close>

definition offerer_page :: page where
  "offerer_page = createCompleteOffer E0 initial_page"

definition offer0 :: signalingData where
  "offer0 = \<lparr>btype = ''offer'', sdp = ''v=0'', candidates = 2\<rparr>"


section \<open>Properties of the link probe\<close>

subsection \<open>Arithmetic on finite samples\<close>

lemma foldl_js_add_Num: "foldl (\<lambda>a b. js_add a b) (Num a) (map Num xs) = Num (a + sum_list xs)"
  by (induction xs arbitrary: a) (simp_all add: add.assoc)

lemma avg_of_Num:
  "xs \<noteq> [] \<Longrightarrow> avg_of (map Num xs) = Num (sum_list xs / real (length xs))"
  by (simp add: avg_of_def foldl_js_add_Num)













subsection \<open>Stopping\<close>

text \<open>
  Claim C10. \<open>stopSpeedTest\<close> called while no run is active returns at once: the page,
  with the probe's counters, samples, timers, timestamps and running flag, is the page
  it was called on.
\<close>

theorem stop_when_idle:
  "\<not> isRunning (speedTest w) \<Longrightarrow> stopSpeedTest now w = w"
  by (simp add: stopSpeedTest_def)

theorem stop_when_idle_witness:
  "\<not> isRunning (speedTest initial_page) \<and> stopSpeedTest 5 initial_page = initial_page"
  using stop_when_idle [of initial_page 5] by (simp add: initial_page_def)

subsection \<open>What each operation leaves unchanged\<close>

lemma emit_fields [simp]:
  "speedTest (emit e w) = speedTest w" "timers (emit e w) = timers w"
  "peer (emit e w) = peer w" "nextTimerId (emit e w) = nextTimerId w"
  "currentPeer (emit e w) = currentPeer w" "arrays (emit e w) = arrays w"
  "nextRef (emit e w) = nextRef w" "ui (emit e w) = ui w @ [e]"
  by (simp_all add: emit_def)

lemma clearIfSet_fields [simp]:
  "speedTest (clearIfSet h w) = speedTest w" "peer (clearIfSet h w) = peer w"
  "nextTimerId (clearIfSet h w) = nextTimerId w" "currentPeer (clearIfSet h w) = currentPeer w"
  "arrays (clearIfSet h w) = arrays w" "nextRef (clearIfSet h w) = nextRef w"
  "ui (clearIfSet h w) = ui w"
  by (simp_all add: clearIfSet_def clearInterval_def split: option.splits)

lemma clearIfSet_timers:
  "timers (clearIfSet h w) = filter (\<lambda>t. \<not> (h = Some (tid t) \<and> tid t \<noteq> 0)) (timers w)"
proof (cases "truthy_handle h")
  case True
  then obtain i where h: "h = Some i" "i \<noteq> 0"
    by (auto simp: truthy_handle_def split: option.splits)
  have "timers (clearIfSet h w) = filter (\<lambda>t. tid t \<noteq> i) (timers w)"
    using h by (simp add: clearIfSet_def truthy_handle_def clearInterval_def)
  also have "\<dots> = filter (\<lambda>t. \<not> (h = Some (tid t) \<and> tid t \<noteq> 0)) (timers w)"
    by (rule filter_cong) (use h in auto)
  finally show ?thesis .
next
  case False
  then have "filter (\<lambda>t. \<not> (h = Some (tid t) \<and> tid t \<noteq> 0)) (timers w) = timers w"
    by (auto simp: filter_id_conv truthy_handle_def split: option.splits)
  with False show ?thesis by (simp add: clearIfSet_def)
qed

lemma addSpeedTestLog_fields [simp]:
  "speedTest (addSpeedTestLog m a l w) = speedTest w" "timers (addSpeedTestLog m a l w) = timers w"
  "peer (addSpeedTestLog m a l w) = peer w" "nextTimerId (addSpeedTestLog m a l w) = nextTimerId w"
  "currentPeer (addSpeedTestLog m a l w) = currentPeer w" "arrays (addSpeedTestLog m a l w) = arrays w"
  "nextRef (addSpeedTestLog m a l w) = nextRef w"
  by (simp_all add: addSpeedTestLog_def)

lemma calculateFinalResults_fields [simp]:
  "speedTest (calculateFinalResults w) = speedTest w" "timers (calculateFinalResults w) = timers w"
  "peer (calculateFinalResults w) = peer w" "nextTimerId (calculateFinalResults w) = nextTimerId w"
  "currentPeer (calculateFinalResults w) = currentPeer w" "arrays (calculateFinalResults w) = arrays w"
  "nextRef (calculateFinalResults w) = nextRef w"
  by (simp_all add: calculateFinalResults_def Let_def)

lemma clearSpeedTestResults_fields:
  "speedTest (clearSpeedTestResults w) = speedTest w" "timers (clearSpeedTestResults w) = timers w"
  "peer (clearSpeedTestResults w) = peer w" "nextTimerId (clearSpeedTestResults w) = nextTimerId w"
  by (simp_all add: clearSpeedTestResults_def Let_def)

lemma stop_speedTest:
  "isRunning (speedTest w) \<Longrightarrow>
     speedTest (stopSpeedTest now w) = (speedTest w)\<lparr>isRunning := False, endTime := Some now\<rparr>"
  by (simp add: stopSpeedTest_def Let_def)

lemma stop_fields:
  "nextTimerId (stopSpeedTest now w) = nextTimerId w" "peer (stopSpeedTest now w) = peer w"
  "currentPeer (stopSpeedTest now w) = currentPeer w"
  by (simp_all add: stopSpeedTest_def Let_def)

lemma stop_timers:
  "isRunning (speedTest w) \<Longrightarrow>
     timers (stopSpeedTest now w)
       = filter (\<lambda>t. \<not> (tid t \<noteq> 0 \<and> Some (tid t) \<in> {testInterval (speedTest w),
                                       latencyInterval (speedTest w), statsInterval (speedTest w)}))
           (timers w)"
  by (auto simp add: stopSpeedTest_def Let_def clearIfSet_timers intro!: filter_cong)

lemma reset_speedTest:
  "speedTest (resetSpeedTestState w)
     = (speedTest w)\<lparr>bytesSent := 0, bytesReceived := 0, packetsLost := 0, latencyTests := [],
                     throughputTests := []\<rparr>"
  by (simp add: resetSpeedTestState_def Let_def)

lemma start_resets:
  assumes "dc_open w" "\<not> isRunning (speedTest w)"
  shows "latencyTests (speedTest (startSpeedTest sel now now' w)) = []"
    "throughputTests (speedTest (startSpeedTest sel now now' w)) = []"
    "bytesSent (speedTest (startSpeedTest sel now now' w)) = 0"
    "bytesReceived (speedTest (startSpeedTest sel now now' w)) = 0"
    "packetsLost (speedTest (startSpeedTest sel now now' w)) = 0"
  using assms
  by (simp_all add: startSpeedTest_def Let_def reset_speedTest setTimeout_def
      startStatsCollection_def startLatencyTest_def startPacketStream_def setInterval_def)

subsection \<open>The sample pages, evaluated\<close>

lemmas start_defs = startSpeedTest_def updateSpeedTestSettings_def resetSpeedTestState_def
  clearIfSet_def clearInterval_def truthy_handle_def emit_def addSpeedTestLog_def
  startPacketStream_def startLatencyTest_def startStatsCollection_def setInterval_def
  setTimeout_def

lemma running_page_eq:
  "running_page =
    \<lparr>currentPeer = ''A'',
     peer = \<lparr>pc = None, dc = Some \<lparr>readyState = Open, sent = []\<rparr>, pendingCandidates = 0,
             iceGatheringComplete = False, completeSignalingData = None\<rparr>,
     speedTest = \<lparr>isRunning = True, startTime = Some 1000, endTime = None, bytesSent = 0,
                  bytesReceived = 0, packetsLost = 0, latencyTests = [], throughputTests = [],
                  testInterval = Some 1, latencyInterval = Some 2, statsInterval = Some 3,
                  testDuration = 1, packetSize = 512, packetFrequency = 10\<rparr>,
     arrays = (\<lambda>_. []),
     nextRef = 1,
     timers = [\<lparr>tid = 1, repeating = True, delay = Num 100, cb = PacketStreamTick 0\<rparr>,
               \<lparr>tid = 2, repeating = True, delay = Num 1000, cb = LatencyTick\<rparr>,
               \<lparr>tid = 3, repeating = True, delay = Num 500, cb = StatsTick 1000 0\<rparr>,
               \<lparr>tid = 4, repeating = False, delay = Num 1000, cb = AutoStop\<rparr>],
     nextTimerId = 5,
     ui = [SetDisabled ''startSpeedTestA'' True, SetDisabled ''stopSpeedTestA'' False,
           SetText ''progressTextA'' ''Testing...'' [],
           AddSpeedTestLog ''A'' ''Starting speed test...'' [] Info,
           AddSpeedTestLog ''A'' ''Duration: %s, Packet size: %B, Frequency: %/s''
             [ArgInt 1, ArgInt 512, ArgInt 10] Info]\<rparr>"
  by (simp add: running_page_def start_defs open_page_def setupDataChannel_def initial_page_def
      dc_open_def sel0_def Let_def)

lemma running_page_running: "isRunning (speedTest running_page) \<and> dc_open running_page"
  by (simp add: running_page_eq dc_open_def)

lemma parse_pong: "parse E0 pong_text = Some pong_packet"
  by (simp add: E0_def sample_parse_def)

lemma probing_page_eq:
  "probing_page = running_page\<lparr>speedTest := (speedTest running_page)\<lparr>latencyTests := [Num 20]\<rparr>\<rparr>"
  by (simp add: probing_page_def handleSpeedTestPacket_def parse_pong pong_packet_def
      push_latency_def js_sub_def running_page_eq)

subsection \<open>Starting\<close>

text \<open>
  Claim C6. \<open>startSpeedTest\<close> with the channel not open only raises the alert. Called
  while a run is active, it leaves the probe's state, the pending timers and the
  channel as they are: with the channel open it only logs the warning
  \<open>Speed test already running!\<close>, so the one set of timers of the active run stays the
  only one.
\<close>

theorem start_rejects:
  "(\<not> dc_open w \<longrightarrow>
      startSpeedTest sel now now' w
        = emit (Alert ''Connection not ready! Please establish connection first.'') w)
   \<and> (dc_open w \<and> isRunning (speedTest w) \<longrightarrow>
      startSpeedTest sel now now' w = addSpeedTestLog ''Speed test already running!'' [] Warning w)
   \<and> (isRunning (speedTest w) \<longrightarrow>
      speedTest (startSpeedTest sel now now' w) = speedTest w
      \<and> timers (startSpeedTest sel now now' w) = timers w
      \<and> nextTimerId (startSpeedTest sel now now' w) = nextTimerId w
      \<and> peer (startSpeedTest sel now now' w) = peer w)"
  by (simp add: startSpeedTest_def emit_def addSpeedTestLog_def)

theorem start_rejects_witness:
  "\<not> dc_open initial_page
   \<and> startSpeedTest sel0 7 7 initial_page
        = emit (Alert ''Connection not ready! Please establish connection first.'') initial_page
   \<and> dc_open running_page \<and> isRunning (speedTest running_page)
   \<and> startSpeedTest sel0 7 7 running_page
        = addSpeedTestLog ''Speed test already running!'' [] Warning running_page
   \<and> timers (startSpeedTest sel0 7 7 running_page) = timers running_page
   \<and> length (filter repeating (timers (startSpeedTest sel0 7 7 running_page))) = 3"
proof -
  have closed: "\<not> dc_open initial_page"
    by (simp add: initial_page_def dc_open_def)
  have three: "length (filter repeating (timers running_page)) = 3"
    by (simp add: running_page_eq)
  show ?thesis
    using start_rejects [of initial_page sel0 7 7] start_rejects [of running_page sel0 7 7]
      closed running_page_running three
    by (simp add: addSpeedTestLog_def emit_def)
qed

subsection \<open>Stopping, clearing, resetting\<close>

lemma stop_cancels_all:
  "isRunning (speedTest w) \<Longrightarrow> intervals_held w \<Longrightarrow>
     filter repeating (timers (stopSpeedTest now w)) = []"
  by (auto simp add: stop_timers intervals_held_def filter_empty_conv)

lemma reset_timers:
  "timers (resetSpeedTestState w)
     = filter (\<lambda>t. \<not> (tid t \<noteq> 0 \<and> Some (tid t) \<in> {testInterval (speedTest w),
                                     latencyInterval (speedTest w), statsInterval (speedTest w)}))
         (timers w)"
  by (auto simp add: resetSpeedTestState_def Let_def clearIfSet_timers intro!: filter_cong)

lemma reset_fields [simp]:
  "nextTimerId (resetSpeedTestState w) = nextTimerId w" "peer (resetSpeedTestState w) = peer w"
  "currentPeer (resetSpeedTestState w) = currentPeer w" "ui (resetSpeedTestState w) = ui w"
  by (simp_all add: resetSpeedTestState_def Let_def)

lemma reset_cancels_all:
  "intervals_held w \<Longrightarrow> filter repeating (timers (resetSpeedTestState w)) = []"
  by (auto simp add: reset_timers intervals_held_def filter_empty_conv)

lemma start_timers:
  assumes "dc_open w" "\<not> isRunning (speedTest w)"
  shows "timers (startSpeedTest sel now now' w)
           = timers (resetSpeedTestState w)
             @ [\<lparr>tid = nextTimerId w, repeating = True,
                 delay = js_div (Num 1000) (Num (real_of_int (selFrequency sel))),
                 cb = PacketStreamTick 0\<rparr>,
                \<lparr>tid = nextTimerId w + 1, repeating = True, delay = Num 1000, cb = LatencyTick\<rparr>,
                \<lparr>tid = nextTimerId w + 2, repeating = True, delay = Num 500,
                 cb = StatsTick now' 0\<rparr>,
                \<lparr>tid = nextTimerId w + 3, repeating = False,
                 delay = js_mul (Num (real_of_int (selDuration sel))) (Num 1000), cb = AutoStop\<rparr>]"
    and "testInterval (speedTest (startSpeedTest sel now now' w)) = Some (nextTimerId w)"
    and "latencyInterval (speedTest (startSpeedTest sel now now' w)) = Some (nextTimerId w + 1)"
    and "statsInterval (speedTest (startSpeedTest sel now now' w)) = Some (nextTimerId w + 2)"
  using assms
  by (simp_all add: startSpeedTest_def Let_def setTimeout_def startStatsCollection_def
      startLatencyTest_def startPacketStream_def setInterval_def reset_timers reset_speedTest
      updateSpeedTestSettings_def)

lemma start_holds_intervals:
  assumes "dc_open w" "\<not> isRunning (speedTest w)" "intervals_held w" "0 < nextTimerId w"
  shows "intervals_held (startSpeedTest sel now now' w)"
    and "length (filter repeating (timers (startSpeedTest sel now now' w))) = 3"
proof -
  have none: "\<forall>t \<in> set (timers (resetSpeedTestState w)). \<not> repeating t"
    using reset_cancels_all [OF assms(3)] by (simp add: filter_empty_conv)
  show "intervals_held (startSpeedTest sel now now' w)"
    using none assms(4) by (auto simp add: intervals_held_def start_timers [OF assms(1,2)])
  have "filter repeating (timers (resetSpeedTestState w)) = []"
    using reset_cancels_all [OF assms(3)] .
  then show "length (filter repeating (timers (startSpeedTest sel now now' w))) = 3"
    by (simp add: start_timers(1) [OF assms(1,2)])
qed

lemma stopped_page_speedTest:
  "speedTest stopped_page
     = (speedTest running_page)\<lparr>latencyTests := [Num 20], isRunning := False, endTime := Some 2000\<rparr>"
  by (simp add: stopped_page_def stop_speedTest probing_page_eq running_page_eq)

lemma stopped_page_timers:
  "timers stopped_page = [\<lparr>tid = 4, repeating = False, delay = Num 1000, cb = AutoStop\<rparr>]"
  by (simp add: stopped_page_def stop_timers probing_page_eq running_page_eq)

lemma stopped_page_dc: "dc_open stopped_page"
  by (simp add: stopped_page_def stop_fields dc_open_def probing_page_eq running_page_eq)

text \<open>
  Claim C5, as amended. \<open>stopSpeedTest\<close> on an active run clears the flag, records the
  end time and changes nothing else of the probe's state, so the samples and the byte
  counters stay; it cancels the timers whose handles the three interval members hold,
  and no other. \<open>clearSpeedTestResults\<close> changes neither the probe's state nor the timers:
  it clears what is shown. The samples and counters are reset by \<open>resetSpeedTestState\<close>,
  which the next successful \<open>startSpeedTest\<close> calls. A successful start leaves exactly
  three interval timers pending, all held by the probe, when every interval timer
  pending before was held; and a stop on such a page leaves no interval timer pending.
\<close>

theorem stop_keeps_samples:
  "(isRunning (speedTest w) \<longrightarrow>
      speedTest (stopSpeedTest now w) = (speedTest w)\<lparr>isRunning := False, endTime := Some now\<rparr>
      \<and> timers (stopSpeedTest now w)
          = filter (\<lambda>t. \<not> (tid t \<noteq> 0 \<and> Some (tid t) \<in> {testInterval (speedTest w),
                                         latencyInterval (speedTest w), statsInterval (speedTest w)}))
              (timers w))
   \<and> speedTest (clearSpeedTestResults w) = speedTest w
   \<and> timers (clearSpeedTestResults w) = timers w
   \<and> speedTest (resetSpeedTestState w)
        = (speedTest w)\<lparr>bytesSent := 0, bytesReceived := 0, packetsLost := 0, latencyTests := [],
                        throughputTests := []\<rparr>
   \<and> (dc_open w \<and> \<not> isRunning (speedTest w) \<longrightarrow>
        latencyTests (speedTest (startSpeedTest sel now now' w)) = []
        \<and> throughputTests (speedTest (startSpeedTest sel now now' w)) = []
        \<and> bytesSent (speedTest (startSpeedTest sel now now' w)) = 0
        \<and> bytesReceived (speedTest (startSpeedTest sel now now' w)) = 0)
   \<and> (isRunning (speedTest w) \<and> intervals_held w \<longrightarrow>
        filter repeating (timers (stopSpeedTest now w)) = [])
   \<and> (dc_open w \<and> \<not> isRunning (speedTest w) \<and> intervals_held w \<and> 0 < nextTimerId w \<longrightarrow>
        intervals_held (startSpeedTest sel now now' w)
        \<and> length (filter repeating (timers (startSpeedTest sel now now' w))) = 3)"
  using stop_speedTest [of w now] stop_timers [of w now] clearSpeedTestResults_fields [of w]
    reset_speedTest [of w] start_resets [of w sel now now'] stop_cancels_all [of w now]
    start_holds_intervals [of w sel now now']
  by blast

theorem stop_keeps_samples_witness:
  "isRunning (speedTest probing_page)
   \<and> latencyTests (speedTest probing_page) = [Num 20]
   \<and> latencyTests (speedTest (stopSpeedTest 2000 probing_page)) = [Num 20]
   \<and> endTime (speedTest (stopSpeedTest 2000 probing_page)) = Some 2000
   \<and> intervals_held probing_page
   \<and> filter repeating (timers probing_page) \<noteq> []
   \<and> filter repeating (timers (stopSpeedTest 2000 probing_page)) = []
   \<and> dc_open stopped_page \<and> \<not> isRunning (speedTest stopped_page)
   \<and> intervals_held stopped_page \<and> 0 < nextTimerId stopped_page
   \<and> latencyTests (speedTest (startSpeedTest sel0 3000 3000 stopped_page)) = []
   \<and> length (filter repeating (timers (startSpeedTest sel0 3000 3000 stopped_page))) = 3"
proof -
  have run: "isRunning (speedTest probing_page)" "intervals_held probing_page"
    by (simp_all add: probing_page_eq running_page_eq intervals_held_def)
  have idle: "\<not> isRunning (speedTest stopped_page)" "intervals_held stopped_page"
    by (simp_all add: stopped_page_speedTest stopped_page_timers intervals_held_def)
  have next_id: "0 < nextTimerId stopped_page"
    by (simp add: stopped_page_def stop_fields probing_page_eq running_page_eq)
  show ?thesis
    using stop_keeps_samples [of probing_page 2000 sel0 3000]
      stop_keeps_samples [of stopped_page 3000 sel0 3000] run idle next_id stopped_page_dc
    by (simp add: probing_page_eq running_page_eq)
qed

text \<open>
  The claim as stated gives the reset to \<open>clearSpeedTestResults\<close> alone. On the stopped
  sample page the latency sample is still there after it, and gone after the next start.
\<close>

theorem clear_does_not_reset:
  "latencyTests (speedTest stopped_page) = [Num 20]
   \<and> latencyTests (speedTest (clearSpeedTestResults stopped_page)) = [Num 20]
   \<and> latencyTests (speedTest (startSpeedTest sel0 3000 3000 stopped_page)) = []"
  using start_resets(1) [OF stopped_page_dc, of sel0 3000 3000]
  by (simp add: clearSpeedTestResults_fields stopped_page_speedTest)

subsection \<open>Throughput\<close>

lemma updateSpeedMetrics_fields [simp]:
  "speedTest (updateSpeedMetrics w) = speedTest w" "timers (updateSpeedMetrics w) = timers w"
  "peer (updateSpeedMetrics w) = peer w" "nextTimerId (updateSpeedMetrics w) = nextTimerId w"
  "currentPeer (updateSpeedMetrics w) = currentPeer w"
  by (simp_all add: updateSpeedMetrics_def Let_def)

lemma currentThroughput_Num:
  "lastUpdate < now \<Longrightarrow>
     currentThroughput bytesDelta now lastUpdate
       = Num (real_of_int bytesDelta * 8 / (real_of_int (now - lastUpdate) / 1000 * 1048576))"
  by (simp add: currentThroughput_def Let_def)

lemma statsTick_sample:
  "lastUpdate < now \<Longrightarrow>
     throughputTests (speedTest (snd (statsTick now lastUpdate lastBytesSent w)))
       = throughputTests (speedTest w)
         @ [Num (real_of_int (int (bytesSent (speedTest w)) - int lastBytesSent) * 8
                 / (real_of_int (now - lastUpdate) / 1000 * 1048576))]"
  by (simp add: statsTick_def Let_def currentThroughput_Num)

lemma statsTick_next:
  "fst (statsTick now lastUpdate lastBytesSent w) = (now, bytesSent (speedTest w))"
  by (simp add: statsTick_def Let_def)

lemma statsTick_no_sample:
  "now \<le> lastUpdate \<Longrightarrow>
     throughputTests (speedTest (snd (statsTick now lastUpdate lastBytesSent w)))
       = throughputTests (speedTest w)"
  by (simp add: statsTick_def Let_def)

lemma usm_avgThroughput_Num:
  "usm_avgThroughput (st\<lparr>throughputTests := map Num xs\<rparr>) = Num (if xs = [] then 0 else mean xs)"
  by (simp add: usm_avgThroughput_def avg_of_Num mean_def)

lemma cfr_avgThroughput_Num:
  "endTime st = Some e \<Longrightarrow> startTime st = Some s \<Longrightarrow> e \<noteq> s \<Longrightarrow>
     cfr_avgThroughput st
       = Num (real (bytesSent st) * 8 / (1048576 * (real_of_int (e - s) / 1000)))"
  by (simp add: cfr_avgThroughput_def cfr_totalMbits_def cfr_testDuration_def ofNull_def
      field_simps)

lemma shown_throughput:
  "SetText (''throughput'' @ currentPeer w) ''% Mbps'' [ArgNum (usm_avgThroughput (speedTest w))]
     \<in> set (ui (updateSpeedMetrics w))"
  by (simp add: updateSpeedMetrics_def Let_def)

lemma reported_throughput:
  "AddSpeedTestLog (currentPeer w) ''Throughput: % Mbps'' [ArgNum (cfr_avgThroughput (speedTest w))] Info
     \<in> set (ui (calculateFinalResults w))"
  by (simp add: calculateFinalResults_def Let_def addSpeedTestLog_def)

lemma updateSpeedMetrics_ui:
  "ui (updateSpeedMetrics w)
     = ui w @ [SetText (''throughput'' @ currentPeer w) ''% Mbps''
                 [ArgNum (usm_avgThroughput (speedTest w))],
               SetText (''latency'' @ currentPeer w) ''% ms''
                 [ArgNum (usm_avgLatency (speedTest w))],
               SetText (''packetLoss'' @ currentPeer w) ''% %''
                 [ArgInt (int (packetsLost (speedTest w)))],
               SetText (''jitter'' @ currentPeer w) ''% ms''
                 [ArgNum (usm_jitter (speedTest w))]]"
  by (simp add: updateSpeedMetrics_def Let_def)

lemma calculateFinalResults_ui:
  "ui (calculateFinalResults w)
     = ui w @ [AddSpeedTestLog (currentPeer w) ''Final Results:'' [] Success,
               AddSpeedTestLog (currentPeer w) ''Throughput: % Mbps''
                 [ArgNum (cfr_avgThroughput (speedTest w))] Info,
               AddSpeedTestLog (currentPeer w) ''Data sent: % MB''
                 [ArgNum (js_div (js_div (Num (real (bytesSent (speedTest w)))) (Num 1024)) (Num 1024))]
                 Info,
               AddSpeedTestLog (currentPeer w) ''Data received: % MB''
                 [ArgNum (js_div (js_div (Num (real (bytesReceived (speedTest w)))) (Num 1024))
                            (Num 1024))] Info,
               AddSpeedTestLog (currentPeer w) ''Latency: %ms (min: %ms, max: %ms)''
                 [ArgNum (cfr_avgLatency (speedTest w)), ArgNum (cfr_minLatency (speedTest w)),
                  ArgNum (cfr_maxLatency (speedTest w))] Info,
               AddSpeedTestLog (currentPeer w) ''Jitter: %ms''
                 [ArgNum (cfr_jitter (speedTest w))] Info,
               AddSpeedTestLog (currentPeer w) ''Test duration: %s''
                 [ArgNum (cfr_testDuration (speedTest w))] Info]"
  by (simp add: calculateFinalResults_def Let_def addSpeedTestLog_def)

lemma statsTick_speedTest:
  "speedTest (snd (statsTick now lastUpdate lastBytesSent w))
     = (if lastUpdate < now
        then (speedTest w)\<lparr>throughputTests := throughputTests (speedTest w)
               @ [currentThroughput (int (bytesSent (speedTest w)) - int lastBytesSent) now lastUpdate]\<rparr>
        else speedTest w)"
  by (simp add: statsTick_def Let_def)

lemma statsTick_ui:
  "\<exists>bar txt. ui (snd (statsTick now lastUpdate lastBytesSent w))
     = ui w @ [SetWidth (''progressBar'' @ currentPeer w) bar,
               SetText (''progressText'' @ currentPeer w) ''Testing... %% (%/%s)'' txt,
               SetText (''throughput'' @ currentPeer w) ''% Mbps''
                 [ArgNum (usm_avgThroughput (speedTest (snd (statsTick now lastUpdate lastBytesSent w))))],
               SetText (''latency'' @ currentPeer w) ''% ms''
                 [ArgNum (usm_avgLatency (speedTest (snd (statsTick now lastUpdate lastBytesSent w))))],
               SetText (''packetLoss'' @ currentPeer w) ''% %''
                 [ArgInt (int (packetsLost (speedTest (snd (statsTick now lastUpdate lastBytesSent w)))))],
               SetText (''jitter'' @ currentPeer w) ''% ms''
                 [ArgNum (usm_jitter (speedTest (snd (statsTick now lastUpdate lastBytesSent w))))]]"
  by (simp add: statsTick_def Let_def updateSpeedMetrics_ui)

lemma statsTick_shown:
  "drop (length (ui w) + 2) (ui (snd (statsTick now lastUpdate lastBytesSent w)))
     = [SetText (''throughput'' @ currentPeer w) ''% Mbps''
                 [ArgNum (usm_avgThroughput (speedTest (snd (statsTick now lastUpdate lastBytesSent w))))],
               SetText (''latency'' @ currentPeer w) ''% ms''
                 [ArgNum (usm_avgLatency (speedTest (snd (statsTick now lastUpdate lastBytesSent w))))],
               SetText (''packetLoss'' @ currentPeer w) ''% %''
                 [ArgInt (int (packetsLost (speedTest (snd (statsTick now lastUpdate lastBytesSent w)))))],
               SetText (''jitter'' @ currentPeer w) ''% ms''
                 [ArgNum (usm_jitter (speedTest (snd (statsTick now lastUpdate lastBytesSent w))))]]"
  "take (length (ui w)) (ui (snd (statsTick now lastUpdate lastBytesSent w))) = ui w"
  by (simp_all add: statsTick_def Let_def updateSpeedMetrics_ui)

lemma statsTick_live_mean:
  assumes "lastUpdate < now" "throughputTests (speedTest w) = map Num xs"
  shows "usm_avgThroughput (speedTest (snd (statsTick now lastUpdate lastBytesSent w)))
           = Num (mean (xs @ [real_of_int (int (bytesSent (speedTest w)) - int lastBytesSent) * 8
                              / (real_of_int (now - lastUpdate) / 1000 * 1048576)]))"
proof -
  let ?x = "real_of_int (int (bytesSent (speedTest w)) - int lastBytesSent) * 8
               / (real_of_int (now - lastUpdate) / 1000 * 1048576)"
  have "speedTest (snd (statsTick now lastUpdate lastBytesSent w))
          = (speedTest w)\<lparr>throughputTests := map Num (xs @ [?x])\<rparr>"
    using assms by (simp add: statsTick_speedTest currentThroughput_Num)
  then show ?thesis
    using usm_avgThroughput_Num [where st = "speedTest w" and xs = "xs @ [?x]"] by simp
qed

lemma stop_ui:
  "isRunning (speedTest w) \<Longrightarrow>
     ui (stopSpeedTest now w)
       = ui (calculateFinalResults
               (w\<lparr>speedTest := (speedTest w)\<lparr>isRunning := False, endTime := Some now\<rparr>,
                  ui := ui w @ [SetDisabled (''startSpeedTest'' @ currentPeer w) False,
                                SetDisabled (''stopSpeedTest'' @ currentPeer w) True,
                                SetText (''progressText'' @ currentPeer w) ''Test completed'' [],
                                SetWidth (''progressBar'' @ currentPeer w) (Num 100)]\<rparr>))
         @ [AddSpeedTestLog (currentPeer w) ''Speed test completed!'' [] Success]"
  by (simp add: stopSpeedTest_def Let_def calculateFinalResults_ui addSpeedTestLog_def)

lemma stop_reports_throughput:
  assumes "isRunning (speedTest w)" "startTime (speedTest w) = Some s" "now \<noteq> s"
  shows "AddSpeedTestLog (currentPeer w) ''Throughput: % Mbps''
           [ArgNum (Num (real (bytesSent (speedTest w)) * 8
                         / (1048576 * (real_of_int (now - s) / 1000))))] Info
           \<in> set (ui (stopSpeedTest now w))"
proof -
  have "cfr_avgThroughput ((speedTest w)\<lparr>isRunning := False, endTime := Some now\<rparr>)
          = Num (real (bytesSent (speedTest w)) * 8 / (1048576 * (real_of_int (now - s) / 1000)))"
    using cfr_avgThroughput_Num [where st = "(speedTest w)\<lparr>isRunning := False, endTime := Some now\<rparr>"
        and e = now and s = s] assms by simp
  then show ?thesis
    using assms(1) by (simp add: stop_ui calculateFinalResults_ui)
qed

text \<open>
  Claim C7. A sampler tick at a time after the previous one appends the sample
  (bytes sent since the previous tick \<times> 8) / (seconds since that tick \<times> 1,048,576), and
  hands its own time and byte count to the next tick as the values to measure from.
  After its two progress writes the tick writes the four live figures, computed from the
  samples after the append: the throughput it shows is the arithmetic mean of the
  samples so far, the one just taken included. A tick at a time not after the previous
  one appends nothing and shows the mean of the samples as they were, 0 when there is
  none. The figure of the final report, which \<open>stopSpeedTest\<close> writes to the log, is
  (total bytes sent \<times> 8) / (1,048,576 \<times> seconds between start and end), for a run whose
  end time differs from its start time. Samples are finite numbers and the arithmetic
  is exact.
\<close>

theorem throughput_formulas:
  "(lastUpdate < now \<longrightarrow>
      throughputTests (speedTest (snd (statsTick now lastUpdate lastBytesSent w)))
        = throughputTests (speedTest w)
          @ [Num (real_of_int (int (bytesSent (speedTest w)) - int lastBytesSent) * 8
                  / (real_of_int (now - lastUpdate) / 1000 * 1048576))])
   \<and> fst (statsTick now lastUpdate lastBytesSent w) = (now, bytesSent (speedTest w))
   \<and> usm_avgThroughput (st\<lparr>throughputTests := map Num xs\<rparr>) = Num (if xs = [] then 0 else mean xs)
   \<and> SetText (''throughput'' @ currentPeer w) ''% Mbps'' [ArgNum (usm_avgThroughput (speedTest w))]
        \<in> set (ui (updateSpeedMetrics w))
   \<and> (endTime st = Some e \<and> startTime st = Some s \<and> e \<noteq> s \<longrightarrow>
        cfr_avgThroughput st
          = Num (real (bytesSent st) * 8 / (1048576 * (real_of_int (e - s) / 1000))))
   \<and> AddSpeedTestLog (currentPeer w) ''Throughput: % Mbps''
        [ArgNum (cfr_avgThroughput (speedTest w))] Info
        \<in> set (ui (calculateFinalResults w))
   \<and> take (length (ui w)) (ui (snd (statsTick now lastUpdate lastBytesSent w))) = ui w
   \<and> drop (length (ui w) + 2) (ui (snd (statsTick now lastUpdate lastBytesSent w)))
       = [SetText (''throughput'' @ currentPeer w) ''% Mbps''
            [ArgNum (usm_avgThroughput (speedTest (snd (statsTick now lastUpdate lastBytesSent w))))],
          SetText (''latency'' @ currentPeer w) ''% ms''
            [ArgNum (usm_avgLatency (speedTest (snd (statsTick now lastUpdate lastBytesSent w))))],
          SetText (''packetLoss'' @ currentPeer w) ''% %''
            [ArgInt (int (packetsLost (speedTest (snd (statsTick now lastUpdate lastBytesSent w)))))],
          SetText (''jitter'' @ currentPeer w) ''% ms''
            [ArgNum (usm_jitter (speedTest (snd (statsTick now lastUpdate lastBytesSent w))))]]
   \<and> (lastUpdate < now \<and> throughputTests (speedTest w) = map Num xs \<longrightarrow>
        SetText (''throughput'' @ currentPeer w) ''% Mbps''
          [ArgNum (Num (mean (xs @ [real_of_int (int (bytesSent (speedTest w)) - int lastBytesSent) * 8
                                    / (real_of_int (now - lastUpdate) / 1000 * 1048576)])))]
          \<in> set (drop (length (ui w)) (ui (snd (statsTick now lastUpdate lastBytesSent w)))))
   \<and> (now \<le> lastUpdate \<and> throughputTests (speedTest w) = map Num xs \<longrightarrow>
        throughputTests (speedTest (snd (statsTick now lastUpdate lastBytesSent w))) = map Num xs
        \<and> SetText (''throughput'' @ currentPeer w) ''% Mbps''
             [ArgNum (Num (if xs = [] then 0 else mean xs))]
             \<in> set (drop (length (ui w)) (ui (snd (statsTick now lastUpdate lastBytesSent w)))))
   \<and> (isRunning (speedTest w) \<and> startTime (speedTest w) = Some s \<and> now \<noteq> s \<longrightarrow>
        AddSpeedTestLog (currentPeer w) ''Throughput: % Mbps''
          [ArgNum (Num (real (bytesSent (speedTest w)) * 8
                        / (1048576 * (real_of_int (now - s) / 1000))))] Info
          \<in> set (ui (stopSpeedTest now w)))"
proof -
  let ?T = "snd (statsTick now lastUpdate lastBytesSent w)"
  let ?x = "real_of_int (int (bytesSent (speedTest w)) - int lastBytesSent) * 8
              / (real_of_int (now - lastUpdate) / 1000 * 1048576)"
  have sample: "lastUpdate < now \<longrightarrow>
      throughputTests (speedTest ?T) = throughputTests (speedTest w) @ [Num ?x]"
    using statsTick_sample [of lastUpdate now lastBytesSent w] by simp
  have "next": "fst (statsTick now lastUpdate lastBytesSent w) = (now, bytesSent (speedTest w))"
    by (rule statsTick_next)
  have avg: "usm_avgThroughput (st\<lparr>throughputTests := map Num xs\<rparr>)
               = Num (if xs = [] then 0 else mean xs)"
    by (rule usm_avgThroughput_Num)
  have whole: "endTime st = Some e \<and> startTime st = Some s \<and> e \<noteq> s \<longrightarrow>
        cfr_avgThroughput st
          = Num (real (bytesSent st) * 8 / (1048576 * (real_of_int (e - s) / 1000)))"
    using cfr_avgThroughput_Num [of st e s] by simp
  have shown: "SetText (''throughput'' @ currentPeer w) ''% Mbps''
                 [ArgNum (usm_avgThroughput (speedTest ?T))] \<in> set (drop (length (ui w)) (ui ?T))"
    using statsTick_ui [of now lastUpdate lastBytesSent w] by auto
  have live: "lastUpdate < now \<and> throughputTests (speedTest w) = map Num xs \<longrightarrow>
        SetText (''throughput'' @ currentPeer w) ''% Mbps'' [ArgNum (Num (mean (xs @ [?x])))]
                \<in> set (drop (length (ui w)) (ui ?T))"
  proof
    assume h: "lastUpdate < now \<and> throughputTests (speedTest w) = map Num xs"
    have eq: "usm_avgThroughput (speedTest ?T) = Num (mean (xs @ [?x]))"
      by (rule statsTick_live_mean) (use h in blast)+
    show "SetText (''throughput'' @ currentPeer w) ''% Mbps'' [ArgNum (Num (mean (xs @ [?x])))]
                \<in> set (drop (length (ui w)) (ui ?T))"
      using shown unfolding eq .
  qed
  have idle: "now \<le> lastUpdate \<and> throughputTests (speedTest w) = map Num xs \<longrightarrow>
        throughputTests (speedTest ?T) = map Num xs
        \<and> SetText (''throughput'' @ currentPeer w) ''% Mbps''
             [ArgNum (Num (if xs = [] then 0 else mean xs))] \<in> set (drop (length (ui w)) (ui ?T))"
  proof
    assume h: "now \<le> lastUpdate \<and> throughputTests (speedTest w) = map Num xs"
    have "speedTest ?T = (speedTest w)\<lparr>throughputTests := map Num xs\<rparr>"
      using h by (simp add: statsTick_speedTest)
    then show "throughputTests (speedTest ?T) = map Num xs
        \<and> SetText (''throughput'' @ currentPeer w) ''% Mbps''
             [ArgNum (Num (if xs = [] then 0 else mean xs))] \<in> set (drop (length (ui w)) (ui ?T))"
      using shown usm_avgThroughput_Num [where st = "speedTest w" and xs = xs] by simp
  qed
  have final: "isRunning (speedTest w) \<and> startTime (speedTest w) = Some s \<and> now \<noteq> s \<longrightarrow>
        AddSpeedTestLog (currentPeer w) ''Throughput: % Mbps''
          [ArgNum (Num (real (bytesSent (speedTest w)) * 8
                        / (1048576 * (real_of_int (now - s) / 1000))))] Info
          \<in> set (ui (stopSpeedTest now w))"
    using stop_reports_throughput [of w s now] by simp
  show ?thesis
    by (intro conjI sample "next" avg whole live idle final shown_throughput reported_throughput
        statsTick_shown)
qed

theorem throughput_formulas_witness:
  "(1000::int) < 1500
   \<and> throughputTests (speedTest sent_page) = map Num []
   \<and> throughputTests (speedTest (snd (statsTick 1500 1000 0 sent_page))) = [Num 2]
   \<and> SetText ''throughputA'' ''% Mbps'' [ArgNum (Num 2)]
        \<in> set (drop (length (ui sent_page)) (ui (snd (statsTick 1500 1000 0 sent_page))))
   \<and> (1000::int) \<le> 1000
   \<and> throughputTests (speedTest (snd (statsTick 1000 1000 0 sent_page))) = []
   \<and> SetText ''throughputA'' ''% Mbps'' [ArgNum (Num 0)]
        \<in> set (drop (length (ui sent_page)) (ui (snd (statsTick 1000 1000 0 sent_page))))
   \<and> usm_avgThroughput (speedTest sent_page\<lparr>throughputTests := [Num 2, Num 4]\<rparr>) = Num 3
   \<and> cfr_avgThroughput (speedTest sent_page\<lparr>endTime := Some 3000\<rparr>) = Num (1 / 2)
   \<and> isRunning (speedTest sent_page) \<and> startTime (speedTest sent_page) = Some 1000
   \<and> (3000::int) \<noteq> 1000
   \<and> AddSpeedTestLog ''A'' ''Throughput: % Mbps'' [ArgNum (Num (1 / 2))] Info
        \<in> set (ui (stopSpeedTest 3000 sent_page))"
proof -
  have a: "(1000::int) < 1500 \<and> throughputTests (speedTest sent_page) = map Num []"
    by (simp add: sent_page_def running_page_eq)
  have a': "(1000::int) \<le> 1000 \<and> throughputTests (speedTest sent_page) = map Num []"
    by (simp add: sent_page_def running_page_eq)
  have b: "endTime (speedTest sent_page\<lparr>endTime := Some 3000\<rparr>) = Some 3000
           \<and> startTime (speedTest sent_page\<lparr>endTime := Some 3000\<rparr>) = Some 1000
           \<and> (3000::int) \<noteq> 1000"
    by (simp add: sent_page_def running_page_eq)
  have c: "isRunning (speedTest sent_page) \<and> startTime (speedTest sent_page) = Some 1000
           \<and> (3000::int) \<noteq> 1000"
    by (simp add: sent_page_def running_page_eq)
  note t1 = throughput_formulas [where lastUpdate = 1000 and now = 1500 and lastBytesSent = 0
      and w = sent_page and st = "speedTest sent_page" and xs = "[]"]
  note t2 = throughput_formulas [where lastUpdate = 1000 and now = 1000 and lastBytesSent = 0
      and w = sent_page and st = "speedTest sent_page" and xs = "[]"]
  note t3 = throughput_formulas [where lastUpdate = 1000 and now = 3000 and lastBytesSent = 0
      and w = sent_page and st = "speedTest sent_page\<lparr>endTime := Some 3000\<rparr>"
      and e = 3000 and s = 1000]
  note t4 = throughput_formulas [where lastUpdate = 1000 and now = 3000 and lastBytesSent = 0
      and w = sent_page and st = "speedTest sent_page" and xs = "[2, 4]"]
  have r1: "throughputTests (speedTest (snd (statsTick 1500 1000 0 sent_page))) = [Num 2]"
    using t1 a by (simp add: sent_page_def running_page_eq)
  have r2: "SetText ''throughputA'' ''% Mbps'' [ArgNum (Num 2)]
        \<in> set (drop (length (ui sent_page)) (ui (snd (statsTick 1500 1000 0 sent_page))))"
    using t1 [THEN conjunct2, THEN conjunct2, THEN conjunct2, THEN conjunct2, THEN conjunct2,
        THEN conjunct2, THEN conjunct2, THEN conjunct2, THEN conjunct1, THEN mp, OF a]
    by (simp add: sent_page_def running_page_eq mean_def)
  have r3: "throughputTests (speedTest (snd (statsTick 1000 1000 0 sent_page))) = []
      \<and> SetText ''throughputA'' ''% Mbps'' [ArgNum (Num 0)]
        \<in> set (drop (length (ui sent_page)) (ui (snd (statsTick 1000 1000 0 sent_page))))"
    using t2 [THEN conjunct2, THEN conjunct2, THEN conjunct2, THEN conjunct2, THEN conjunct2,
        THEN conjunct2, THEN conjunct2, THEN conjunct2, THEN conjunct2, THEN conjunct1, THEN mp,
        OF a']
    by (simp add: sent_page_def running_page_eq)
  have r4: "usm_avgThroughput (speedTest sent_page\<lparr>throughputTests := [Num 2, Num 4]\<rparr>) = Num 3"
    using t4 [THEN conjunct2, THEN conjunct2, THEN conjunct1] by (simp add: mean_def)
  have r5: "cfr_avgThroughput (speedTest sent_page\<lparr>endTime := Some 3000\<rparr>) = Num (1 / 2)"
    using t3 [THEN conjunct2, THEN conjunct2, THEN conjunct2, THEN conjunct2, THEN conjunct1,
        THEN mp, OF b]
    by (simp add: sent_page_def running_page_eq)
  have r6: "AddSpeedTestLog ''A'' ''Throughput: % Mbps'' [ArgNum (Num (1 / 2))] Info
        \<in> set (ui (stopSpeedTest 3000 sent_page))"
    using t3 [THEN conjunct2, THEN conjunct2, THEN conjunct2, THEN conjunct2, THEN conjunct2,
        THEN conjunct2, THEN conjunct2, THEN conjunct2, THEN conjunct2, THEN conjunct2,
        THEN mp, OF c]
    by (simp add: sent_page_def running_page_eq)
  show ?thesis
    using a a' c r1 r2 r3 r4 r5 r6 by simp
qed

subsection \<open>Latency statistics\<close>
















subsection \<open>Messages that are not probe packets\<close>

lemma not_recognized_tags:
  assumes "\<not> recognized p" "get_prop p ''type'' = Inr ty"
  shows "ty \<noteq> Val (JStr ''speed_test'')" "ty \<noteq> Val (JStr ''speed_test_echo'')"
    "ty \<noteq> Val (JStr ''ping'')" "ty \<noteq> Val (JStr ''pong'')"
    "\<not> includes_str [''speed_test'', ''speed_test_echo'', ''ping'', ''pong''] ty"
  using assms by (auto simp: recognized_def includes_str_def split: jsval.splits json.splits)

lemma handle_unparsed: "parse E data = None \<Longrightarrow> handleSpeedTestPacket E now data w = w"
  by (simp add: handleSpeedTestPacket_def)

lemma handle_unrecognized:
  assumes "parse E data = Some p" "\<not> recognized p"
  shows "handleSpeedTestPacket E now data w = w"
proof (cases "get_prop p ''type''")
  case (Inl e)
  with assms show ?thesis by (simp add: handleSpeedTestPacket_def)
next
  case (Inr ty)
  with assms not_recognized_tags [OF assms(2) Inr] show ?thesis
    by (simp add: handleSpeedTestPacket_def)
qed

lemma onmessage_unparsed: "parse E data = None \<Longrightarrow> onmessage E now data w = chat data w"
  by (simp add: onmessage_def chat_def Let_def)

lemma onmessage_unrecognized:
  assumes "parse E data = Some p" "\<not> recognized p"
  shows "onmessage E now data w = chat data w"
proof (cases "get_prop p ''type''")
  case (Inl e)
  with assms show ?thesis by (simp add: onmessage_def chat_def Let_def)
next
  case (Inr ty)
  with assms not_recognized_tags(5) [OF assms(2) Inr] show ?thesis
    by (simp add: onmessage_def chat_def Let_def)
qed

lemma chat_fields:
  "speedTest (chat data w) = speedTest w" "timers (chat data w) = timers w"
  "peer (chat data w) = peer w"
  "ui (chat data w) = ui w @ [AddMessage (currentPeer w) data
                                (''Peer '' @ (if currentPeer w = ''A'' then ''B'' else ''A''))]"
  by (simp_all add: chat_def addMessage_def emit_def)

text \<open>
  Claim C9. A message whose text does not parse, or parses to a value without one of
  the four type tags, is handled by \<open>channel.onmessage\<close> as chat: the result is the page
  with the message appended to the chat, every exception having been caught; the probe's
  state, the timers and the channel are unchanged, and \<open>handleSpeedTestPacket\<close> itself
  leaves the whole page unchanged on such a message.
\<close>

theorem unrecognized_goes_to_chat:
  assumes "parse E data = None \<or> (\<exists>p. parse E data = Some p \<and> \<not> recognized p)"
  shows "onmessage E now data w = chat data w
       \<and> speedTest (onmessage E now data w) = speedTest w
       \<and> timers (onmessage E now data w) = timers w
       \<and> peer (onmessage E now data w) = peer w
       \<and> ui (onmessage E now data w)
           = ui w @ [AddMessage (currentPeer w) data
                       (''Peer '' @ (if currentPeer w = ''A'' then ''B'' else ''A''))]
       \<and> handleSpeedTestPacket E now data w = w"
proof -
  have "onmessage E now data w = chat data w"
    using assms onmessage_unparsed onmessage_unrecognized by blast
  moreover have "handleSpeedTestPacket E now data w = w"
    using assms handle_unparsed handle_unrecognized by blast
  ultimately show ?thesis
    by (simp add: chat_fields)
qed

lemma parse_samples:
  "parse E0 ''hello'' = None" "parse E0 untagged_text = Some untagged_packet"
  "parse E0 ''null'' = Some JNull"
  by (simp_all add: E0_def sample_parse_def pong_text_def untagged_text_def answer_text_def
      no_sdp_text_def empty_sdp_text_def bare_pong_text_def quoted_def)

theorem unrecognized_goes_to_chat_witness:
  "parse E0 ''hello'' = None
   \<and> onmessage E0 1500 ''hello'' initial_page = chat ''hello'' initial_page
   \<and> parse E0 untagged_text = Some untagged_packet \<and> \<not> recognized untagged_packet
   \<and> onmessage E0 1500 untagged_text initial_page = chat untagged_text initial_page
   \<and> parse E0 ''null'' = Some JNull \<and> \<not> recognized JNull
   \<and> onmessage E0 1500 ''null'' initial_page = chat ''null'' initial_page
   \<and> speedTest (onmessage E0 1500 ''null'' initial_page) = speedTest initial_page"
proof -
  have a: "\<not> recognized untagged_packet" "\<not> recognized JNull"
    by (simp_all add: recognized_def untagged_packet_def)
  have h1: "parse E0 ''hello'' = None \<or> (\<exists>p. parse E0 ''hello'' = Some p \<and> \<not> recognized p)"
    by (simp add: parse_samples)
  have h2: "parse E0 untagged_text = None
            \<or> (\<exists>p. parse E0 untagged_text = Some p \<and> \<not> recognized p)"
    by (simp add: parse_samples a)
  have h3: "parse E0 ''null'' = None \<or> (\<exists>p. parse E0 ''null'' = Some p \<and> \<not> recognized p)"
    by (simp add: parse_samples a)
  show ?thesis
    using unrecognized_goes_to_chat [OF h1, of 1500 initial_page]
      unrecognized_goes_to_chat [OF h2, of 1500 initial_page]
      unrecognized_goes_to_chat [OF h3, of 1500 initial_page]
      parse_samples a
    by blast
qed

section \<open>Properties of the bundle negotiator\<close>

subsection \<open>Candidate events and the event loop\<close>

lemmas ui_defs = emit_def addDebugInfo_def updateStatus_def addMessage_def caught_def

lemma onicecandidate_Some:
  "onicecandidate E (Some c) w =
     w\<lparr>arrays := (arrays w)(pendingCandidates (peer w) := arrays w (pendingCandidates (peer w)) @ [c]),
       ui := ui w @ [AddDebugInfo (currentPeer w) ''Generated % candidate:'' [ArgVal (Val c)] Info,
                     AddDebugInfo (currentPeer w) ''%:% (%, priority: %)'' [ArgVal (Val c)] Info]\<rparr>"
  by (simp add: onicecandidate_def Let_def ui_defs)

lemma discover_fields [simp]:
  "peer (discover E cs w) = peer w" "timers (discover E cs w) = timers w"
  "currentPeer (discover E cs w) = currentPeer w" "speedTest (discover E cs w) = speedTest w"
  "nextRef (discover E cs w) = nextRef w" "nextTimerId (discover E cs w) = nextTimerId w"
  by (induction cs arbitrary: w; simp add: discover_def onicecandidate_Some)+

lemma discover_arrays:
  "arrays (discover E cs w)
     = (arrays w)(pendingCandidates (peer w) := arrays w (pendingCandidates (peer w)) @ cs)"
proof (induction cs arbitrary: w)
  case Nil
  then show ?case by (simp add: discover_def)
next
  case (Cons c cs)
  have "discover E (c # cs) w = discover E cs (onicecandidate E (Some c) w)"
    by (simp add: discover_def)
  then show ?case
    using Cons [of "onicecandidate E (Some c) w"] by (auto simp add: onicecandidate_Some fun_eq_iff)
qed

lemma discover_publications [simp]: "publications (discover E cs w) = publications w"
  by (induction cs arbitrary: w)
     (simp_all add: discover_def onicecandidate_Some publications_def is_publication_def)

lemma run_append:
  "run E (es1 @ es2) w = (case run E es1 w of None \<Rightarrow> None | Some w1 \<Rightarrow> run E es2 w1)"
  by (induction es1 arbitrary: w) (simp_all split: option.splits)

lemma run_candidates: "run E (map Candidate cs) w = Some (discover E cs w)"
  by (induction cs arbitrary: w) (simp_all add: discover_def)

lemma run_discover: "run E (map Candidate cs @ es) w = run E es (discover E cs w)"
  by (simp add: run_append run_candidates)

subsection \<open>The two ways a bundle is completed\<close>

lemma ready_result:
  assumes "completeSignalingData (peer w) = Some b" "currentPeer w = ''A'' \<or> currentPeer w = ''B''"
  shows "completeSignalingReady E w =
     w\<lparr>peer := (peer w)\<lparr>completeSignalingData := Some (b\<lparr>candidates := pendingCandidates (peer w)\<rparr>)\<rparr>,
       ui := ui w @ [SetValue (target w) (bundle_text E b (arrays w (pendingCandidates (peer w)))),
                     UpdateStatus (currentPeer w)
                       (if currentPeer w = ''A'' then ''Complete Offer Ready''
                        else ''Complete Answer Ready''),
                     AddDebugInfo (currentPeer w)
                       (if currentPeer w = ''A'' then ''Complete offer ready with % candidates''
                        else ''Complete answer ready with % candidates'')
                       [ArgInt (int (length (arrays w (pendingCandidates (peer w)))))] Success]\<rparr>"
  using assms
  by (auto simp add: completeSignalingReady_def Let_def ui_defs target_def bundle_text_def
      bundle_json_def)

lemma ready_fields:
  assumes "completeSignalingData (peer w) = Some b" "currentPeer w = ''A'' \<or> currentPeer w = ''B''"
  shows "publications (completeSignalingReady E w)
           = publications w
             @ [SetValue (target w) (bundle_text E b (arrays w (pendingCandidates (peer w))))]"
    and "completeSignalingData (peer (completeSignalingReady E w))
           = Some (b\<lparr>candidates := pendingCandidates (peer w)\<rparr>)"
    and "iceGatheringComplete (peer (completeSignalingReady E w)) = iceGatheringComplete (peer w)"
    and "pendingCandidates (peer (completeSignalingReady E w)) = pendingCandidates (peer w)"
    and "arrays (completeSignalingReady E w) = arrays w"
    and "currentPeer (completeSignalingReady E w) = currentPeer w"
    and "timers (completeSignalingReady E w) = timers w"
  using assms(2)
  by (auto simp add: ready_result [OF assms] publications_def is_publication_def target_def)

lemma addDebugInfo_fields [simp]:
  "peer (addDebugInfo m a l w) = peer w" "arrays (addDebugInfo m a l w) = arrays w"
  "timers (addDebugInfo m a l w) = timers w" "currentPeer (addDebugInfo m a l w) = currentPeer w"
  "speedTest (addDebugInfo m a l w) = speedTest w" "nextRef (addDebugInfo m a l w) = nextRef w"
  "nextTimerId (addDebugInfo m a l w) = nextTimerId w"
  "publications (addDebugInfo m a l w) = publications w" "target (addDebugInfo m a l w) = target w"
  "ui (addDebugInfo m a l w) = ui w @ [AddDebugInfo (currentPeer w) m a l]"
  by (simp_all add: ui_defs publications_def is_publication_def target_def)

lemma updateStatus_fields [simp]:
  "peer (updateStatus s w) = peer w" "arrays (updateStatus s w) = arrays w"
  "timers (updateStatus s w) = timers w" "currentPeer (updateStatus s w) = currentPeer w"
  "speedTest (updateStatus s w) = speedTest w" "nextRef (updateStatus s w) = nextRef w"
  "nextTimerId (updateStatus s w) = nextTimerId w"
  "publications (updateStatus s w) = publications w" "target (updateStatus s w) = target w"
  "ui (updateStatus s w) = ui w @ [UpdateStatus (currentPeer w) s]"
  by (simp_all add: ui_defs publications_def is_publication_def target_def)

lemma timeout_result:
  assumes "completeSignalingData (peer w) = Some b" "currentPeer w = ''A'' \<or> currentPeer w = ''B''"
    "\<not> iceGatheringComplete (peer w)"
  shows "publications (gatheringTimeout E w)
           = publications w
             @ [SetValue (target w) (bundle_text E b (arrays w (pendingCandidates (peer w))))]"
    and "completeSignalingData (peer (gatheringTimeout E w))
           = Some (b\<lparr>candidates := pendingCandidates (peer w)\<rparr>)"
    and "iceGatheringComplete (peer (gatheringTimeout E w)) = False"
    and "pendingCandidates (peer (gatheringTimeout E w)) = pendingCandidates (peer w)"
    and "arrays (gatheringTimeout E w) = arrays w"
    and "currentPeer (gatheringTimeout E w) = currentPeer w"
    and "timers (gatheringTimeout E w) = timers w"
proof -
  define v where "v = addDebugInfo ''ICE gathering timeout, using current candidates'' [] Warning w"
  have g: "gatheringTimeout E w = completeSignalingReady E v"
    using assms(3) by (simp add: gatheringTimeout_def v_def)
  have a: "completeSignalingData (peer v) = Some b" "currentPeer v = ''A'' \<or> currentPeer v = ''B''"
    using assms by (simp_all add: v_def)
  have p: "publications v = publications w" "target v = target w" "arrays v = arrays w"
    "peer v = peer w" "currentPeer v = currentPeer w" "timers v = timers w"
    by (simp_all add: v_def)
  show "publications (gatheringTimeout E w)
           = publications w
             @ [SetValue (target w) (bundle_text E b (arrays w (pendingCandidates (peer w))))]"
    and "completeSignalingData (peer (gatheringTimeout E w))
           = Some (b\<lparr>candidates := pendingCandidates (peer w)\<rparr>)"
    and "iceGatheringComplete (peer (gatheringTimeout E w)) = False"
    and "pendingCandidates (peer (gatheringTimeout E w)) = pendingCandidates (peer w)"
    and "arrays (gatheringTimeout E w) = arrays w"
    and "currentPeer (gatheringTimeout E w) = currentPeer w"
    and "timers (gatheringTimeout E w) = timers w"
    using ready_fields [OF a, of E] assms(3) by (simp_all add: g p)
qed

lemma timeout_after_signal: "iceGatheringComplete (peer w) \<Longrightarrow> gatheringTimeout E w = w"
  by (simp add: gatheringTimeout_def)

lemma signal_result:
  assumes "completeSignalingData (peer w) = Some b" "currentPeer w = ''A'' \<or> currentPeer w = ''B''"
  shows "publications (onicecandidate E None w)
           = publications w
             @ [SetValue (target w) (bundle_text E b (arrays w (pendingCandidates (peer w))))]"
    and "completeSignalingData (peer (onicecandidate E None w))
           = Some (b\<lparr>candidates := pendingCandidates (peer w)\<rparr>)"
    and "iceGatheringComplete (peer (onicecandidate E None w)) = True"
    and "pendingCandidates (peer (onicecandidate E None w)) = pendingCandidates (peer w)"
    and "arrays (onicecandidate E None w) = arrays w"
    and "currentPeer (onicecandidate E None w) = currentPeer w"
    and "timers (onicecandidate E None w) = timers w"
proof -
  define v where "v = addDebugInfo ''ICE gathering complete! Total: % candidates''
              [ArgInt (int (length (arrays w (pendingCandidates (peer w)))))] Success
              (w\<lparr>peer := (peer w)\<lparr>iceGatheringComplete := True\<rparr>\<rparr>)"
  have g: "onicecandidate E None w = completeSignalingReady E v"
    using assms(1) by (simp add: onicecandidate_def Let_def v_def)
  have a: "completeSignalingData (peer v) = Some b" "currentPeer v = ''A'' \<or> currentPeer v = ''B''"
    using assms by (simp_all add: v_def)
  have p: "publications v = publications w" "target v = target w" "arrays v = arrays w"
    "pendingCandidates (peer v) = pendingCandidates (peer w)"
    "iceGatheringComplete (peer v) = True"
    "currentPeer v = currentPeer w" "timers v = timers w"
    by (simp_all add: v_def publications_def target_def is_publication_def)
  show "publications (onicecandidate E None w)
           = publications w
             @ [SetValue (target w) (bundle_text E b (arrays w (pendingCandidates (peer w))))]"
    and "completeSignalingData (peer (onicecandidate E None w))
           = Some (b\<lparr>candidates := pendingCandidates (peer w)\<rparr>)"
    and "iceGatheringComplete (peer (onicecandidate E None w)) = True"
    and "pendingCandidates (peer (onicecandidate E None w)) = pendingCandidates (peer w)"
    and "arrays (onicecandidate E None w) = arrays w"
    and "currentPeer (onicecandidate E None w) = currentPeer w"
    and "timers (onicecandidate E None w) = timers w"
    using ready_fields [OF a, of E] by (simp_all add: g p)
qed

lemma fire_gathering:
  assumes "find (\<lambda>t. tid t = i) (timers w)
             = Some \<lparr>tid = i, repeating = False, delay = d, cb = GatheringTimeout\<rparr>"
  shows "fire E now rnd i w = Some (gatheringTimeout E (without_timer i w))"
  using assms by (simp add: fire_def without_timer_def)

lemma without_timer_fields [simp]:
  "peer (without_timer i w) = peer w" "arrays (without_timer i w) = arrays w"
  "currentPeer (without_timer i w) = currentPeer w" "ui (without_timer i w) = ui w"
  "publications (without_timer i w) = publications w" "target (without_timer i w) = target w"
  by (simp_all add: without_timer_def publications_def target_def)

subsection \<open>Timer and signal in either order\<close>

lemma bundle_text_candidates [simp]: "bundle_text E (b\<lparr>candidates := r\<rparr>) cs = bundle_text E b cs"
  by (simp add: bundle_text_def)

lemma target_discover [simp]: "target (discover E cs w) = target w"
  by (simp add: target_def)

lemma find_append_None: "find P xs = None \<Longrightarrow> find P (xs @ ys) = find P ys"
  by (induction xs) (simp_all split: if_splits)

lemma offer_opens_round:
  assumes "offerResult E = Some offer" "\<not> rejectsLocal E ''offer'' offer"
    and "currentPeer w = ''A'' \<or> currentPeer w = ''B''"
    and "\<forall>t \<in> set (timers w). tid t \<noteq> nextTimerId w"
  shows "round_open (nextTimerId w) \<lparr>btype = ''offer'', sdp = offer, candidates = nextRef w + 1\<rparr>
           (createCompleteOffer E w)"
proof -
  have "find (\<lambda>t. tid t = nextTimerId w) (timers w) = None"
    using assms(4) by (simp add: find_None_iff)
  then show ?thesis
    using assms(1,2,3)
    by (simp add: round_open_def createCompleteOffer_def close_pc_def initializePeerConnection_def
        new_array_def setupDataChannel_def setLocalDescription_def setTimeout_def Let_def
        find_append_None new_conn_def split: option.splits)
qed

lemma timeout_first:
  assumes "round_open i b w"
  shows "run E (map Candidate cs1 @ [TimerFires i now rnd]) w
           = Some (gatheringTimeout E (without_timer i (discover E cs1 w)))"
  using assms by (simp add: run_discover round_open_def fire_gathering)

lemma after_timeout:
  fixes E :: env and cs1 :: "json list"
  assumes "round_open i b w"
  defines "w1 \<equiv> gatheringTimeout E (without_timer i (discover E cs1 w))"
  shows "publications w1
           = publications w
             @ [SetValue (target w) (bundle_text E b (arrays w (pendingCandidates (peer w)) @ cs1))]"
    and "completeSignalingData (peer w1) = Some (b\<lparr>candidates := pendingCandidates (peer w)\<rparr>)"
    and "\<not> iceGatheringComplete (peer w1)"
    and "pendingCandidates (peer w1) = pendingCandidates (peer w)"
    and "arrays w1 (pendingCandidates (peer w)) = arrays w (pendingCandidates (peer w)) @ cs1"
    and "currentPeer w1 = currentPeer w"
proof -
  let ?v = "without_timer i (discover E cs1 w)"
  have a: "completeSignalingData (peer ?v) = Some b" "currentPeer ?v = ''A'' \<or> currentPeer ?v = ''B''"
    "\<not> iceGatheringComplete (peer ?v)"
    using assms(1) by (simp_all add: round_open_def)
  show "publications w1
           = publications w
             @ [SetValue (target w) (bundle_text E b (arrays w (pendingCandidates (peer w)) @ cs1))]"
    and "completeSignalingData (peer w1) = Some (b\<lparr>candidates := pendingCandidates (peer w)\<rparr>)"
    and "\<not> iceGatheringComplete (peer w1)"
    and "pendingCandidates (peer w1) = pendingCandidates (peer w)"
    and "arrays w1 (pendingCandidates (peer w)) = arrays w (pendingCandidates (peer w)) @ cs1"
    and "currentPeer w1 = currentPeer w"
    using timeout_result [OF a, of E] by (simp_all add: w1_def discover_arrays)
qed

lemma signal_late:
  fixes E :: env and cs1 cs2 :: "json list"
  assumes "round_open i b w"
  defines "w1 \<equiv> gatheringTimeout E (without_timer i (discover E cs1 w))"
  shows "publications (onicecandidate E None (discover E cs2 w1))
           = publications w
             @ [SetValue (target w) (bundle_text E b (arrays w (pendingCandidates (peer w)) @ cs1)),
                SetValue (target w)
                  (bundle_text E b (arrays w (pendingCandidates (peer w)) @ cs1 @ cs2))]"
proof -
  note t = after_timeout [OF assms(1), where E = E and ?cs1.0 = cs1, folded w1_def]
  let ?v = "discover E cs2 w1"
  have a: "completeSignalingData (peer ?v) = Some (b\<lparr>candidates := pendingCandidates (peer w)\<rparr>)"
    "currentPeer ?v = ''A'' \<or> currentPeer ?v = ''B''"
    using t assms(1) by (simp_all add: round_open_def)
  have tg: "target w1 = target w"
    using t(6) by (simp add: target_def)
  show ?thesis
    using signal_result(1) [OF a, of E] t by (simp add: discover_arrays tg)
qed

lemma signal_first:
  fixes E :: env and cs1 :: "json list"
  assumes "round_open i b w"
  defines "w3 \<equiv> onicecandidate E None (discover E cs1 w)"
  shows "run E (map Candidate cs1 @ [GatheringComplete, TimerFires i now rnd]) w
           = Some (without_timer i w3)"
    and "publications w3
           = publications w
             @ [SetValue (target w) (bundle_text E b (arrays w (pendingCandidates (peer w)) @ cs1))]"
proof -
  let ?v = "discover E cs1 w"
  have a: "completeSignalingData (peer ?v) = Some b" "currentPeer ?v = ''A'' \<or> currentPeer ?v = ''B''"
    using assms(1) by (simp_all add: round_open_def)
  note s = signal_result [OF a, where E = E, folded w3_def]
  have f: "find (\<lambda>t. tid t = i) (timers w3)
             = Some \<lparr>tid = i, repeating = False, delay = Num 5000, cb = GatheringTimeout\<rparr>"
    using assms(1) s(7) by (simp add: round_open_def)
  have "iceGatheringComplete (peer (without_timer i w3))"
    using s(3) by simp
  then have "gatheringTimeout E (without_timer i w3) = without_timer i w3"
    by (rule timeout_after_signal)
  then show "run E (map Candidate cs1 @ [GatheringComplete, TimerFires i now rnd]) w
           = Some (without_timer i w3)"
    using fire_gathering [OF f, of E now rnd] by (simp add: run_discover w3_def)
  show "publications w3
           = publications w
             @ [SetValue (target w) (bundle_text E b (arrays w (pendingCandidates (peer w)) @ cs1))]"
    using s(1) by (simp add: discover_arrays)
qed

text \<open>
  Claim C2, as amended. In a round whose 5000 ms timer fires before gathering completes,
  the timer forces the bundle to ready with the candidates collected so far. When the
  gathering-complete signal arrives after that, the bundle is completed a second time,
  with the candidates collected by then. When the signal arrives first, it completes
  the bundle and the timer, firing later, forces nothing: that round has one completion.
\<close>

theorem gathering_completions:
  assumes "round_open i b w"
  shows "map_option publications (run E (map Candidate cs1 @ [TimerFires i now rnd]) w)
           = Some (publications w
                   @ [SetValue (target w)
                        (bundle_text E b (arrays w (pendingCandidates (peer w)) @ cs1))])
       \<and> map_option publications
           (run E (map Candidate cs1 @ [TimerFires i now rnd] @ map Candidate cs2
                   @ [GatheringComplete]) w)
           = Some (publications w
                   @ [SetValue (target w)
                        (bundle_text E b (arrays w (pendingCandidates (peer w)) @ cs1)),
                      SetValue (target w)
                        (bundle_text E b (arrays w (pendingCandidates (peer w)) @ cs1 @ cs2))])
       \<and> map_option publications
           (run E (map Candidate cs1 @ [GatheringComplete, TimerFires i now rnd]) w)
           = Some (publications w
                   @ [SetValue (target w)
                        (bundle_text E b (arrays w (pendingCandidates (peer w)) @ cs1))])"
proof -
  define w1 where "w1 = gatheringTimeout E (without_timer i (discover E cs1 w))"
  have r1: "run E (map Candidate cs1 @ [TimerFires i now rnd]) w = Some w1"
    using timeout_first [OF assms] by (simp add: w1_def)
  have "run E ((map Candidate cs1 @ [TimerFires i now rnd]) @ (map Candidate cs2 @ [GatheringComplete])) w
          = Some (onicecandidate E None (discover E cs2 w1))"
    unfolding run_append [of E "map Candidate cs1 @ [TimerFires i now rnd]"] r1
    by (simp add: run_discover)
  then have r2: "run E (map Candidate cs1 @ [TimerFires i now rnd] @ map Candidate cs2
                   @ [GatheringComplete]) w
          = Some (onicecandidate E None (discover E cs2 w1))"
    by simp
  show ?thesis
    using after_timeout(1) [OF assms, where E = E and ?cs1.0 = cs1]
      signal_late [OF assms, where E = E and ?cs1.0 = cs1 and ?cs2.0 = cs2]
      signal_first(1) [OF assms, where E = E and ?cs1.0 = cs1 and now = now and rnd = rnd]
      signal_first(2) [OF assms, where E = E and ?cs1.0 = cs1] r1 r2
    by (simp add: w1_def)
qed

lemma late_signal_run:
  assumes "round_open i b w"
  shows "run E (map Candidate cs1 @ [TimerFires i now rnd] @ map Candidate cs2 @ [GatheringComplete]) w
          = Some (onicecandidate E None
                    (discover E cs2 (gatheringTimeout E (without_timer i (discover E cs1 w)))))"
proof -
  have "run E ((map Candidate cs1 @ [TimerFires i now rnd]) @ (map Candidate cs2 @ [GatheringComplete])) w
          = Some (onicecandidate E None
                    (discover E cs2 (gatheringTimeout E (without_timer i (discover E cs1 w)))))"
    unfolding run_append [of E "map Candidate cs1 @ [TimerFires i now rnd]"]
      timeout_first [OF assms]
    by (simp add: run_discover)
  then show ?thesis by simp
qed

lemma offerer_page_eq:
  "offerer_page =
    \<lparr>currentPeer = ''A'',
     peer = \<lparr>pc = Some \<lparr>closed = False, localDescription = Some (''offer'', ''v=0''),
                        remoteDescription = None, remoteCandidates = []\<rparr>,
             dc = Some \<lparr>readyState = Connecting, sent = []\<rparr>, pendingCandidates = 1,
             iceGatheringComplete = False,
             completeSignalingData = Some \<lparr>btype = ''offer'', sdp = ''v=0'', candidates = 2\<rparr>\<rparr>,
     speedTest = speedTest initial_page,
     arrays = (\<lambda>_. []),
     nextRef = 3,
     timers = [\<lparr>tid = 1, repeating = False, delay = Num 5000, cb = GatheringTimeout\<rparr>],
     nextTimerId = 2,
     ui = [AddDebugInfo ''A'' ''Creating complete offer...'' [] Info,
           UpdateStatus ''A'' ''Gathering ICE Candidates...'',
           AddDebugInfo ''A'' ''Offer created, gathering ICE candidates...'' [] Info]\<rparr>"
  by (simp add: offerer_page_def createCompleteOffer_def ui_defs close_pc_def
      initializePeerConnection_def new_array_def new_conn_def setupDataChannel_def
      setLocalDescription_def setTimeout_def E0_def initial_page_def Let_def fun_eq_iff)

lemma offerer_round: "round_open 1 offer0 offerer_page"
  by (simp add: round_open_def offerer_page_eq offer0_def)

lemma offerer_facts:
  "publications offerer_page = []" "target offerer_page = ''completeOfferA''"
  "arrays offerer_page (pendingCandidates (peer offerer_page)) = []"
  by (simp_all add: offerer_page_eq publications_def is_publication_def target_def)

text \<open>
  The claim as stated allows one completion per round. On the sample page the timer
  fires after the first candidate and the gathering-complete signal arrives after the
  second: the bundle is written twice.
\<close>

theorem late_signal_completes_again:
  "map_option (\<lambda>w. length (publications w))
     (run E0 [Candidate cand_a, TimerFires 1 6000 [], Candidate cand_b, GatheringComplete]
        offerer_page)
   = Some 2"
  using late_signal_run [OF offerer_round, of E0 "[cand_a]" 6000 "[]" "[cand_b]"]
    signal_late [OF offerer_round, of E0 "[cand_b]" "[cand_a]"]
  by (simp add: offerer_facts)

theorem gathering_completions_witness:
  "round_open 1 offer0 offerer_page
   \<and> map_option publications (run E0 [Candidate cand_a, TimerFires 1 6000 []] offerer_page)
       = Some [SetValue ''completeOfferA'' (bundle_text E0 offer0 [cand_a])]
   \<and> map_option publications
        (run E0 [Candidate cand_a, TimerFires 1 6000 [], Candidate cand_b, GatheringComplete]
           offerer_page)
       = Some [SetValue ''completeOfferA'' (bundle_text E0 offer0 [cand_a]),
               SetValue ''completeOfferA'' (bundle_text E0 offer0 [cand_a, cand_b])]
   \<and> map_option publications
        (run E0 [Candidate cand_a, GatheringComplete, TimerFires 1 6000 []] offerer_page)
       = Some [SetValue ''completeOfferA'' (bundle_text E0 offer0 [cand_a])]"
  using gathering_completions [OF offerer_round, of E0 "[cand_a]" 6000 "[]" "[cand_b]"]
    offerer_round
  by (simp add: offerer_facts)

subsection \<open>Candidates discovered after completion\<close>

lemma discovered_after_completion:
  assumes "completeSignalingData (peer w0) = Some (b\<lparr>candidates := pendingCandidates (peer w0)\<rparr>)"
  shows "run E (map Candidate cs) w0 = Some (discover E cs w0)"
    and "publications (discover E cs w0) = publications w0"
    and "bundle_candidates w0 = Some (arrays w0 (pendingCandidates (peer w0)))"
    and "bundle_candidates (discover E cs w0)
           = Some (arrays w0 (pendingCandidates (peer w0)) @ cs)"
  using assms by (simp_all add: run_candidates bundle_candidates_def discover_arrays)

text \<open>
  Claim C4, as amended. When the bundle is completed, by the gathering-complete signal
  or by the timer, its serialised text holds the candidates discovered until then, and
  candidates discovered afterwards do not change what was written. The bundle in memory
  shares its candidates array with the pending list: every candidate discovered after
  completion is appended to it.
\<close>

theorem completed_bundle_after_discovery:
  assumes "completeSignalingData (peer w) = Some b"
    and "currentPeer w = ''A'' \<or> currentPeer w = ''B''"
    and "w0 = onicecandidate E None w \<or> (\<not> iceGatheringComplete (peer w) \<and> w0 = gatheringTimeout E w)"
  shows "publications w0
           = publications w
             @ [SetValue (target w) (bundle_text E b (arrays w (pendingCandidates (peer w))))]
       \<and> bundle_candidates w0 = Some (arrays w (pendingCandidates (peer w)))
       \<and> map_option publications (run E (map Candidate cs) w0) = Some (publications w0)
       \<and> map_option bundle_candidates (run E (map Candidate cs) w0)
           = Some (Some (arrays w (pendingCandidates (peer w)) @ cs))"
proof -
  have f: "publications w0
           = publications w
             @ [SetValue (target w) (bundle_text E b (arrays w (pendingCandidates (peer w))))]"
    "completeSignalingData (peer w0) = Some (b\<lparr>candidates := pendingCandidates (peer w)\<rparr>)"
    "pendingCandidates (peer w0) = pendingCandidates (peer w)"
    "arrays w0 = arrays w"
    using assms(3) signal_result [OF assms(1,2), of E] timeout_result [OF assms(1,2), of E]
    by auto
  have a: "completeSignalingData (peer w0) = Some (b\<lparr>candidates := pendingCandidates (peer w0)\<rparr>)"
    using f by simp
  show ?thesis
    using discovered_after_completion(1,2,4) [OF a, where E = E and cs = cs]
      discovered_after_completion(3) [OF a] f
    by simp
qed

lemma timed_out_run:
  "run E0 [TimerFires 1 6000 []] offerer_page
     = Some (gatheringTimeout E0 (without_timer 1 offerer_page))"
  using timeout_first [OF offerer_round, of E0 "[]" 6000 "[]"] by (simp add: discover_def)

lemma timed_out_facts:
  "completeSignalingData (peer (without_timer 1 offerer_page)) = Some offer0"
  "currentPeer (without_timer 1 offerer_page) = ''A''
   \<or> currentPeer (without_timer 1 offerer_page) = ''B''"
  "\<not> iceGatheringComplete (peer (without_timer 1 offerer_page))"
  "arrays (without_timer 1 offerer_page) (pendingCandidates (peer (without_timer 1 offerer_page))) = []"
  by (simp_all add: offerer_page_eq offer0_def)

text \<open>
  The claim as stated freezes the candidates array of the completed bundle. On the
  sample page the timer completes the bundle with no candidate; the candidate
  discovered next is in the bundle's array.
\<close>

theorem candidate_after_timeout_joins_bundle:
  "map_option bundle_candidates (run E0 [TimerFires 1 6000 []] offerer_page) = Some (Some [])
   \<and> map_option bundle_candidates (run E0 [TimerFires 1 6000 [], Candidate cand_a] offerer_page)
       = Some (Some [cand_a])"
proof -
  let ?w0 = "gatheringTimeout E0 (without_timer 1 offerer_page)"
  have t: "completeSignalingData (peer ?w0)
             = Some (offer0\<lparr>candidates := pendingCandidates (peer (without_timer 1 offerer_page))\<rparr>)"
    "pendingCandidates (peer ?w0) = pendingCandidates (peer (without_timer 1 offerer_page))"
    "arrays ?w0 = arrays (without_timer 1 offerer_page)"
    using timeout_result [OF timed_out_facts(1,2,3), of E0] by simp_all
  have a: "completeSignalingData (peer ?w0) = Some (offer0\<lparr>candidates := pendingCandidates (peer ?w0)\<rparr>)"
    using t by simp
  have "run E0 ([TimerFires 1 6000 []] @ map Candidate [cand_a]) offerer_page
          = Some (discover E0 [cand_a] ?w0)"
    unfolding run_append [of E0 "[TimerFires 1 6000 []]"] timed_out_run
    by (simp add: discover_def)
  then have r: "run E0 [TimerFires 1 6000 [], Candidate cand_a] offerer_page
          = Some (discover E0 [cand_a] ?w0)"
    by simp
  show ?thesis
    using discovered_after_completion(4) [OF a, where E = E0 and cs = "[cand_a]"]
      discovered_after_completion(3) [OF a] t timed_out_facts(4) r timed_out_run
    by simp
qed

theorem completed_bundle_after_discovery_witness:
  "completeSignalingData (peer (without_timer 1 offerer_page)) = Some offer0
   \<and> \<not> iceGatheringComplete (peer (without_timer 1 offerer_page))
   \<and> publications (gatheringTimeout E0 (without_timer 1 offerer_page))
       = [SetValue ''completeOfferA'' (bundle_text E0 offer0 [])]
   \<and> map_option publications
        (run E0 [Candidate cand_a, Candidate cand_b] (gatheringTimeout E0 (without_timer 1 offerer_page)))
       = Some [SetValue ''completeOfferA'' (bundle_text E0 offer0 [])]
   \<and> map_option bundle_candidates
        (run E0 [Candidate cand_a, Candidate cand_b] (gatheringTimeout E0 (without_timer 1 offerer_page)))
       = Some (Some [cand_a, cand_b])"
proof -
  have h: "gatheringTimeout E0 (without_timer 1 offerer_page)
             = onicecandidate E0 None (without_timer 1 offerer_page)
           \<or> (\<not> iceGatheringComplete (peer (without_timer 1 offerer_page))
               \<and> gatheringTimeout E0 (without_timer 1 offerer_page)
                   = gatheringTimeout E0 (without_timer 1 offerer_page))"
    using timed_out_facts(3) by simp
  show ?thesis
    using completed_bundle_after_discovery [OF timed_out_facts(1,2) h, where cs = "[cand_a, cand_b]"]
      timed_out_facts
    by (simp add: offerer_facts)
qed

subsection \<open>Input that is blank, malformed or without a description\<close>

lemma caught_fields [simp]:
  "peer (caught e w) = peer w" "arrays (caught e w) = arrays w"
  "timers (caught e w) = timers w" "currentPeer (caught e w) = currentPeer w"
  "nextRef (caught e w) = nextRef w" "nextTimerId (caught e w) = nextTimerId w"
  "ui (caught e w) = ui w @ [AddDebugInfo (currentPeer w) ''Error: %'' [ArgErr e] Error,
                             UpdateStatus (currentPeer w) ''Error'']"
  by (simp_all add: caught_def)













lemmas sample_texts = pong_text_def untagged_text_def answer_text_def no_sdp_text_def
  empty_sdp_text_def bare_pong_text_def quoted_def

lemma parse_bundles:
  "parse E0 answer_text = Some answer_bundle" "parse E0 no_sdp_text = Some no_sdp_bundle"
  "parse E0 empty_sdp_text = Some empty_sdp_bundle" "parse E0 ''hello'' = None"
  by (simp_all add: E0_def sample_parse_def sample_texts)

lemma trim_samples:
  "trim ''  '' = []" "trim answer_text \<noteq> []" "trim no_sdp_text \<noteq> []"
  "trim empty_sdp_text \<noteq> []" "trim ''hello'' \<noteq> []"
  by (simp_all add: trim_def is_space_def sample_texts)

lemma E0_engine:
  "rejectsRemote E0 ''offer'' Undefined" "rejectsRemote E0 ''offer'' (Val (JStr []))"
  "\<not> rejectsRemote E0 ''answer'' (Val (JStr ''v=0''))" "\<not> rejectsCandidate E0 c"
  by (simp_all add: E0_def)






subsection \<open>Applying the answer on the offerer side\<close>

text \<open>The loop over the candidates.\<close>

lemma addAll_accepted:
  assumes "pc (peer w) = Some c" "\<forall>x \<in> set cs. \<not> rejectsCandidate E x"
  shows "addAll E cs w
           = (None, w\<lparr>peer := (peer w)\<lparr>pc := Some (c\<lparr>remoteCandidates := remoteCandidates c @ cs\<rparr>)\<rparr>\<rparr>)"
  using assms
proof (induction cs arbitrary: w c)
  case Nil
  then show ?case by simp
next
  case (Cons x cs)
  let ?w1 = "w\<lparr>peer := (peer w)\<lparr>pc := Some (c\<lparr>remoteCandidates := remoteCandidates c @ [x]\<rparr>)\<rparr>\<rparr>"
  have a: "addIceCandidate E x w = Inr ?w1"
    using Cons.prems by (simp add: addIceCandidate_def)
  have "addAll E cs ?w1
          = (None, ?w1\<lparr>peer := (peer ?w1)\<lparr>pc := Some ((c\<lparr>remoteCandidates := remoteCandidates c @ [x]\<rparr>)
                         \<lparr>remoteCandidates := remoteCandidates (c\<lparr>remoteCandidates := remoteCandidates c @ [x]\<rparr>) @ cs\<rparr>)\<rparr>\<rparr>)"
    using Cons.prems by (intro Cons.IH) simp_all
  then show ?case using a by simp
qed

lemma setCompleteAnswer_never_adds:
  "map_option remoteCandidates (pc (peer (setCompleteAnswer E text w)))
     = map_option remoteCandidates (pc (peer w))"
  by (auto simp add: setCompleteAnswer_def setRemoteDescription_def Let_def emit_def
      split: option.splits sum.splits if_splits)

lemma setCompleteAnswer_single_replays:
  assumes "trim text \<noteq> []" "parse E text = Some p"
    and "get_prop p ''candidates'' = Inr (Val (JArr cs))" "get_prop p ''sdp'' = Inr s"
    and "pc (peer w) = Some c" "\<not> rejectsRemote E ''answer'' s"
    and "\<forall>x \<in> set cs. \<not> rejectsCandidate E x"
  shows "pc (peer (setCompleteAnswer_single E text w))
           = Some (c\<lparr>remoteDescription := Some (''answer'', s),
                     remoteCandidates := remoteCandidates c @ cs\<rparr>)"
proof -
  define w2 where "w2 = updateStatus ''Connecting...''
     (addDebugInfo ''Processing complete answer with % candidates''
        [ArgVal (Val (JNum (real (length cs))))] Info w)"
  define w3 where "w3 = w2\<lparr>peer := (peer w2)\<lparr>pc := Some (c\<lparr>remoteDescription := Some (''answer'', s)\<rparr>)\<rparr>\<rparr>"
  have r: "setRemoteDescription E ''answer'' s w2 = Inr w3"
    using assms(5,6) by (simp add: setRemoteDescription_def w2_def w3_def)
  have p3: "pc (peer w3) = Some (c\<lparr>remoteDescription := Some (''answer'', s)\<rparr>)"
    by (simp add: w3_def)
  note a = addAll_accepted [OF p3 assms(7)]
  show ?thesis
    using assms(1-4) r a
    by (simp add: setCompleteAnswer_single_def Let_def w2_def [symmetric])
qed

lemma offerer_pc:
  "pc (peer offerer_page) = Some \<lparr>closed = False, localDescription = Some (''offer'', ''v=0''),
                                  remoteDescription = None, remoteCandidates = []\<rparr>"
  by (simp add: offerer_page_eq)

lemma answer_members:
  "get_prop answer_bundle ''candidates'' = Inr (Val (JArr [cand_a, cand_b]))"
  "get_prop answer_bundle ''sdp'' = Inr (Val (JStr ''v=0''))"
  by (simp_all add: answer_bundle_def)

lemma setCompleteAnswer_on_sample:
  "setCompleteAnswer E0 answer_text offerer_page =
     offerer_page
       \<lparr>peer := (peer offerer_page)
          \<lparr>pc := Some \<lparr>closed = False, localDescription = Some (''offer'', ''v=0''),
                       remoteDescription = Some (''answer'', Val (JStr ''v=0'')),
                       remoteCandidates = []\<rparr>\<rparr>,
        ui := ui offerer_page
              @ [AddDebugInfo ''A'' ''Processing complete answer with % candidates''
                   [ArgVal (Val (JNum 2))] Info,
                 UpdateStatus ''A'' ''Connecting...'',
                 AddDebugInfo ''A'' ''Added % remote candidates'' [ArgVal (Val (JNum 2))] Success,
                 AddDebugInfo ''A'' ''Connection should establish now...'' [] Info]\<rparr>"
  by (simp add: setCompleteAnswer_def trim_samples parse_bundles answer_members
      setRemoteDescription_def E0_engine Let_def ui_defs offerer_page_eq)

text \<open>
  Claim C1, at an input where the served script departs from it. The answer bundle
  carries two candidates. \<open>setCompleteAnswer\<close> applies the description, hands no
  candidate to the connection, and logs that two were added; the single-file version
  of the function hands over both, in the order of the array.
\<close>

theorem setCompleteAnswer_skips_candidates:
  "get_prop answer_bundle ''candidates'' = Inr (Val (JArr [cand_a, cand_b]))
   \<and> map_option remoteDescription (pc (peer (setCompleteAnswer E0 answer_text offerer_page)))
       = Some (Some (''answer'', Val (JStr ''v=0'')))
   \<and> map_option remoteCandidates (pc (peer (setCompleteAnswer E0 answer_text offerer_page)))
       = Some []
   \<and> AddDebugInfo ''A'' ''Added % remote candidates'' [ArgVal (Val (JNum 2))] Success
       \<in> set (ui (setCompleteAnswer E0 answer_text offerer_page))
   \<and> map_option remoteCandidates
        (pc (peer (setCompleteAnswer_single E0 answer_text offerer_page)))
       = Some [cand_a, cand_b]"
proof -
  have "\<forall>x \<in> set [cand_a, cand_b]. \<not> rejectsCandidate E0 x"
    by (simp add: E0_engine)
  then have "pc (peer (setCompleteAnswer_single E0 answer_text offerer_page))
           = Some (\<lparr>closed = False, localDescription = Some (''offer'', ''v=0''),
                     remoteDescription = None, remoteCandidates = []\<rparr>
                   \<lparr>remoteDescription := Some (''answer'', Val (JStr ''v=0'')),
                     remoteCandidates := [] @ [cand_a, cand_b]\<rparr>)"
    using setCompleteAnswer_single_replays [OF trim_samples(2) parse_bundles(1) answer_members
        offerer_pc E0_engine(3)]
    by simp
  then show ?thesis
    by (simp add: setCompleteAnswer_on_sample answer_members)
qed

end
